theory Spec2Isabelle
  imports Complex_Main "HOL-Library.Word"
begin

section \<open>Numeric conventions\<close>

text \<open>
  Python floats are modelled as the reals: the development is about the arithmetic the
  program writes down, not about IEEE rounding. Python's \<^verbatim>\<open>int(x)\<close> on a float
  truncates towards zero.
\<close>

definition py_int :: "real \<Rightarrow> int" where
  "py_int x = (if 0 \<le> x then \<lfloor>x\<rfloor> else \<lceil>x\<rceil>)"

text \<open>\<^verbatim>\<open>np.clip(x, lo, hi)\<close> is \<^verbatim>\<open>minimum(maximum(x, lo), hi)\<close>.\<close>

definition np_clip :: "real \<Rightarrow> real \<Rightarrow> real \<Rightarrow> real" where
  "np_clip x lo hi = min (max x lo) hi"

section \<open>The neuron integrator\<close>

text \<open>
  \<^verbatim>\<open>neuron/__init__.py\<close> imports \<^verbatim>\<open>IzhikevichNeuron\<close> from
  \<^verbatim>\<open>neuron/izhikevich_neuron.py\<close>, a file that is not among the sources. The
  integrator is therefore written down from section 4.1 of the specification.
\<close>

record neuron_params =
  np_a :: real
  np_b :: real
  np_c :: real
  np_d :: real

record neuron_state =
  ns_v :: real
  ns_u :: real

text \<open>
  Modelled from the spec: the update rule of \<^verbatim>\<open>IzhikevichNeuron.step\<close>
  (\<^verbatim>\<open>neuron/izhikevich_neuron.py\<close> is missing). The two candidate values are
  computed from the state before the step; the threshold test is on the candidate
  potential.
\<close>

definition v_candidate :: "neuron_state \<Rightarrow> real \<Rightarrow> real \<Rightarrow> real" where
  "v_candidate s i dt = ns_v s + dt * (0.04 * (ns_v s)\<^sup>2 + 5 * ns_v s + 140 - ns_u s + i)"

definition u_candidate :: "neuron_params \<Rightarrow> neuron_state \<Rightarrow> real \<Rightarrow> real" where
  "u_candidate p s dt = ns_u s + dt * (np_a p * (np_b p * ns_v s - ns_u s))"

text \<open>
  Modelled from the spec: \<^verbatim>\<open>step(input_current, dt_ms) -> (spiked, state_after)\<close>
  of the missing \<^verbatim>\<open>IzhikevichNeuron\<close>.
\<close>

definition neuron_step ::
  "neuron_params \<Rightarrow> neuron_state \<Rightarrow> real \<Rightarrow> real \<Rightarrow> bool \<times> neuron_state" where
  "neuron_step p s i dt =
     (let v' = v_candidate s i dt;
          u' = u_candidate p s dt
      in if v' \<ge> 30.0
         then (True, \<lparr>ns_v = np_c p, ns_u = u' + np_d p\<rparr>)
         else (False, \<lparr>ns_v = v', ns_u = u'\<rparr>))"

section \<open>The rate-to-volume map\<close>

text \<open>
  \<^verbatim>\<open>HapticSystem._spike_rate_to_volume\<close>. The two volume scales are read from
  \<^verbatim>\<open>config['sound']\<close>; here they are the first two arguments.
\<close>

definition spike_rate_to_volume :: "real \<Rightarrow> real \<Rightarrow> real \<Rightarrow> real" where
  "spike_rate_to_volume min_volume max_volume spike_rate =
     (let min_spike_rate = 20.0;
          max_spike_rate = 120.0
      in if spike_rate \<le> 0 then 0.0
         else if spike_rate \<le> min_spike_rate then min_volume
         else if spike_rate \<ge> max_spike_rate then max_volume
         else
           (let volume_range = max_volume - min_volume;
                rate_range = max_spike_rate - min_spike_rate;
                volume = min_volume + ((spike_rate - min_spike_rate) / rate_range) * volume_range
            in np_clip volume 0.0 1.0))"

section \<open>NumPy arrays as lists\<close>

datatype error = ValueError | TypeError | KeyError | IndexError

text \<open>
  \<^verbatim>\<open>np.linspace(start, stop, num, endpoint)\<close>: \<open>num\<close> evenly spaced points, the last
  one being \<open>stop\<close> when \<open>endpoint\<close> holds. NumPy raises \<^verbatim>\<open>ValueError\<close> for a negative
  \<open>num\<close>; the callers below test for that before they build the array.
\<close>

definition np_linspace :: "real \<Rightarrow> real \<Rightarrow> nat \<Rightarrow> bool \<Rightarrow> real list" where
  "np_linspace start stop num endpoint =
     (let d = (if endpoint then num - 1 else num);
          step = (if d = 0 then 0 else (stop - start) / real d)
      in map (\<lambda>i. start + real i * step) [0..<num])"

text \<open>\<^verbatim>\<open>w[:len(r)] *= r\<close> and \<^verbatim>\<open>w[len(w) - len(r):] *= r\<close>.\<close>

definition mul_head :: "real list \<Rightarrow> real list \<Rightarrow> real list" where
  "mul_head w r = map2 (*) (take (length r) w) r @ drop (length r) w"

definition mul_tail :: "real list \<Rightarrow> real list \<Rightarrow> real list" where
  "mul_tail w r =
     take (length w - length r) w @ map2 (*) (drop (length w - length r) w) r"

text \<open>
  \<^verbatim>\<open>np.convolve(a, v, mode='same')\<close>: the operands are swapped when \<open>v\<close> is the longer
  one, and the result is the centred part of the full convolution, as long as the longer
  operand. Every call below is guarded so that both operands are non-empty.
\<close>

definition np_convolve_same :: "real list \<Rightarrow> real list \<Rightarrow> real list" where
  "np_convolve_same a0 v0 =
     (let a = (if length v0 > length a0 then v0 else a0);
          v = (if length v0 > length a0 then a0 else v0);
          n = length a;
          m = length v
      in map (\<lambda>i. sum_list (map (\<lambda>j.
                  (let k = int i + int ((m - 1) div 2) - int j
                   in if 0 \<le> k \<and> k < int n then a ! nat k * v ! j else 0)) [0..<m]))
           [0..<n])"

text \<open>\<^verbatim>\<open>np.ones(k) / k\<close>.\<close>

definition smooth_kernel :: "nat \<Rightarrow> real list" where
  "smooth_kernel k = replicate k (1 / real k)"

text \<open>
  \<^verbatim>\<open>x.astype(np.int16)\<close> on a float: the fraction is dropped (towards zero) and the
  integer is stored in sixteen bits. For an integer outside the sixteen-bit range NumPy
  leaves the result to the C cast; the model keeps the low sixteen bits.
\<close>

type_synonym int16 = "16 word"

definition astype_int16 :: "real \<Rightarrow> int16" where
  "astype_int16 x = word_of_int (py_int x)"

text \<open>\<^verbatim>\<open>(wave_data * 32767).astype(np.int16)\<close>.\<close>

definition quantize :: "real list \<Rightarrow> int16 list" where
  "quantize wave_data = map (\<lambda>x. astype_int16 (x * 32767)) wave_data"

text \<open>
  \<^verbatim>\<open>np.random.normal(0, 1, n)\<close> reads the process-wide generator. The generator is
  modelled by the sequence of draws it will deliver next; a call takes the first \<open>n\<close>
  of them and leaves the rest.
\<close>

type_synonym rng = "nat \<Rightarrow> real"

definition np_random_normal :: "nat \<Rightarrow> rng \<Rightarrow> real list \<times> rng" where
  "np_random_normal n g = (map g [0..<n], (\<lambda>k. g (k + n)))"

section \<open>The waveform synthesizer (\<^verbatim>\<open>HapticRenderer\<close>)\<close>

text \<open>A \<^verbatim>\<open>pygame.mixer.Sound\<close> is identified with the sample buffer it was built from.\<close>

type_synonym sound = "int16 list"

text \<open>\<^verbatim>\<open>n_s = int(self.sample_rate * (ms / 1000.0))\<close>.\<close>

definition n_samples :: "real \<Rightarrow> real \<Rightarrow> int" where
  "n_samples sample_rate ms = py_int (sample_rate * (ms / 1000.0))"

text \<open>\<^verbatim>\<open>t = np.linspace(0, ms / 1000.0, n_s, False)\<close>.\<close>

definition time_axis :: "real \<Rightarrow> real \<Rightarrow> real list" where
  "time_axis sample_rate ms =
     np_linspace 0 (ms / 1000.0) (nat (n_samples sample_rate ms)) False"

text \<open>
  The block every generator ends with:
  \<^verbatim>\<open>fade_out_samples = int(self.sample_rate * (fade_out_ms / 1000.0))\<close>,
  \<^verbatim>\<open>if n_s > fade_out_samples and fade_out_ms > 0:
      wave_data[n_s - fade_out_samples:] *= np.linspace(1, 0, fade_out_samples)\<close>.
\<close>

definition linear_fade_out :: "real \<Rightarrow> real \<Rightarrow> real \<Rightarrow> real list \<Rightarrow> real list" where
  "linear_fade_out sample_rate ms fade_out_ms wave_data =
     (let fade_out_samples = py_int (sample_rate * (fade_out_ms / 1000.0))
      in if n_samples sample_rate ms > fade_out_samples \<and> fade_out_ms > 0
         then mul_tail wave_data (np_linspace 1 0 (nat fade_out_samples) True)
         else wave_data)"

text \<open>
  The attack ramp of the material generators:
  \<^verbatim>\<open>attack_samples = int(secs * self.sample_rate)\<close>,
  \<^verbatim>\<open>if attack_samples < n_s: wave_data[:attack_samples] *= np.linspace(0, 1, attack_samples)\<close>.
\<close>

definition linear_attack :: "real \<Rightarrow> real \<Rightarrow> real \<Rightarrow> real list \<Rightarrow> real list" where
  "linear_attack sample_rate ms secs wave_data =
     (let attack_samples = py_int (secs * sample_rate)
      in if attack_samples < n_samples sample_rate ms
         then mul_head wave_data (np_linspace 0 1 (nat attack_samples) True)
         else wave_data)"

text \<open>
  \<^verbatim>\<open>if n_s > threshold: wave_data = np.convolve(wave_data, np.ones(k) / k, mode='same')\<close>.
\<close>

definition smoothing :: "real \<Rightarrow> real \<Rightarrow> int \<Rightarrow> nat \<Rightarrow> real list \<Rightarrow> real list" where
  "smoothing sample_rate ms threshold k wave_data =
     (if n_samples sample_rate ms > threshold
      then np_convolve_same wave_data (smooth_kernel k)
      else wave_data)"

text \<open>
  A generator first builds the time axis, and \<^verbatim>\<open>np.linspace\<close> raises
  \<^verbatim>\<open>ValueError\<close> for a negative sample count.
\<close>

definition checked :: "real \<Rightarrow> real \<Rightarrow> sound \<Rightarrow> error + sound" where
  "checked sample_rate ms buf = (if n_samples sample_rate ms < 0 then Inl ValueError else Inr buf)"

subsection \<open>The generic tone\<close>

definition sine_wave :: "real \<Rightarrow> real \<Rightarrow> real \<Rightarrow> real \<Rightarrow> real \<Rightarrow> real list" where
  "sine_wave sample_rate hz ms amp fade_out_ms =
     (let t = time_axis sample_rate ms;
          wave_data = map (\<lambda>t. amp * sin (2 * pi * hz * t)) t
      in linear_fade_out sample_rate ms fade_out_ms wave_data)"

definition create_sound_buffer :: "real \<Rightarrow> real \<Rightarrow> real \<Rightarrow> real \<Rightarrow> real \<Rightarrow> error + sound" where
  "create_sound_buffer sample_rate hz ms amp fade_out_ms =
     checked sample_rate ms (quantize (sine_wave sample_rate hz ms amp fade_out_ms))"

text \<open>
  \<^verbatim>\<open>if sound_buffer.size == 0: return pygame.mixer.Sound(buffer=np.array([0], dtype=np.int16))\<close>.
\<close>

definition sound_of_buffer :: "error + sound \<Rightarrow> error + sound" where
  "sound_of_buffer r =
     (case r of Inl e \<Rightarrow> Inl e
      | Inr sound_buffer \<Rightarrow> Inr (if length sound_buffer = 0 then [0] else sound_buffer))"

definition create_sound_object :: "real \<Rightarrow> real \<Rightarrow> real \<Rightarrow> real \<Rightarrow> real \<Rightarrow> error + sound" where
  "create_sound_object sample_rate hz ms amp fade_out_ms =
     sound_of_buffer (create_sound_buffer sample_rate hz ms amp fade_out_ms)"

subsection \<open>The material generators\<close>

text \<open>
  Each \<^verbatim>\<open>_create_*_waveform\<close> is split in two: the float array before the last line,
  and the buffer that line makes of it.
\<close>

definition glass_wave :: "real \<Rightarrow> real \<Rightarrow> real \<Rightarrow> real \<Rightarrow> real \<Rightarrow> real \<Rightarrow> real list" where
  "glass_wave sample_rate hz ms amp fade_out_ms brightness =
     (let t = time_axis sample_rate ms;
          wave_data = map (\<lambda>t.
              amp * 0.85 * sin (2 * pi * hz * t)
            + amp * 0.08 * brightness * 0.2 * sin (2 * pi * hz * 2 * t)
            + amp * 0.03 * brightness * 0.1 * sin (2 * pi * hz * 3 * t)
            + amp * 0.001 * sin (2 * pi * hz * 8 * t) * (1 + 0.1 * sin (2 * pi * 2 * t))) t;
          wave_data = smoothing sample_rate ms 20 15 wave_data;
          wave_data = linear_attack sample_rate ms 0.001 wave_data
      in linear_fade_out sample_rate ms fade_out_ms wave_data)"

definition create_glass_waveform ::
  "real \<Rightarrow> real \<Rightarrow> real \<Rightarrow> real \<Rightarrow> real \<Rightarrow> real \<Rightarrow> error + sound" where
  "create_glass_waveform sample_rate hz ms amp fade_out_ms brightness =
     checked sample_rate ms
       (quantize (glass_wave sample_rate hz ms amp fade_out_ms brightness))"

definition metal_wave :: "real \<Rightarrow> real \<Rightarrow> real \<Rightarrow> real \<Rightarrow> real \<Rightarrow> real \<Rightarrow> real list" where
  "metal_wave sample_rate hz ms amp fade_out_ms resonance =
     (let t = time_axis sample_rate ms;
          wave_data = map (\<lambda>t.
              amp * 0.7 * sin (2 * pi * hz * t)
            + amp * 0.25 * resonance * sin (2 * pi * hz * 2 * t)
            + amp * 0.15 * resonance * sin (2 * pi * hz * 3 * t)
            + amp * 0.08 * resonance * sin (2 * pi * hz * 5 * t)
            + amp * 0.05 * resonance * sin (2 * pi * hz * 7 * t) * exp (-1.5 * t)
            + amp * 0.03 * sin (2 * pi * hz * 1.3 * t) * (1 + 0.3 * sin (2 * pi * 4 * t))) t;
          wave_data = smoothing sample_rate ms 10 5 wave_data;
          wave_data = linear_attack sample_rate ms 0.001 wave_data
      in linear_fade_out sample_rate ms fade_out_ms wave_data)"

definition create_metal_waveform ::
  "real \<Rightarrow> real \<Rightarrow> real \<Rightarrow> real \<Rightarrow> real \<Rightarrow> real \<Rightarrow> error + sound" where
  "create_metal_waveform sample_rate hz ms amp fade_out_ms resonance =
     checked sample_rate ms
       (quantize (map (\<lambda>x. np_clip x (-1) 1)
          (metal_wave sample_rate hz ms amp fade_out_ms resonance)))"

text \<open>
  The one-pole low-pass loop over the noise,
  \<^verbatim>\<open>for i in range(1, len(x)): x[i] = a * x[i] + b * x[i-1]\<close>, which reads the
  already filtered predecessor.
\<close>

fun low_pass_from :: "real \<Rightarrow> real \<Rightarrow> real \<Rightarrow> real list \<Rightarrow> real list" where
  "low_pass_from a b prev [] = []"
| "low_pass_from a b prev (x # xs) = (a * x + b * prev) # low_pass_from a b (a * x + b * prev) xs"

fun low_pass :: "real \<Rightarrow> real \<Rightarrow> real list \<Rightarrow> real list" where
  "low_pass a b [] = []"
| "low_pass a b (x # xs) = x # low_pass_from a b x xs"

definition wood_wave ::
  "real \<Rightarrow> real \<Rightarrow> real \<Rightarrow> real \<Rightarrow> real \<Rightarrow> real \<Rightarrow> real list \<Rightarrow> real list" where
  "wood_wave sample_rate hz ms amp fade_out_ms warmth normal =
     (let t = time_axis sample_rate ms;
          wood_roughness = low_pass 0.6 0.4 (map (\<lambda>z. amp * 0.08 * z) normal);
          wave_data = map2 (\<lambda>t rough.
              amp * 0.65 * sin (2 * pi * hz * t)
            + amp * 0.15 * warmth * sin (2 * pi * hz * 2 * t)
            + amp * 0.08 * warmth * sin (2 * pi * hz * 3 * t)
            + rough
            + amp * 0.04 * sin (2 * pi * hz * 0.3 * t) * (1 + 0.5 * sin (2 * pi * 0.8 * t))
            + amp * 0.02 * sin (2 * pi * hz * 8 * t) * exp (-3 * t)) t wood_roughness;
          wave_data = smoothing sample_rate ms 15 8 wave_data;
          wave_data = linear_attack sample_rate ms 0.003 wave_data
      in linear_fade_out sample_rate ms fade_out_ms wave_data)"

definition create_wood_waveform ::
  "real \<Rightarrow> real \<Rightarrow> real \<Rightarrow> real \<Rightarrow> real \<Rightarrow> real \<Rightarrow> rng \<Rightarrow> (error + sound) \<times> rng" where
  "create_wood_waveform sample_rate hz ms amp fade_out_ms warmth g =
     (if n_samples sample_rate ms < 0 then (Inl ValueError, g)
      else
        (let (normal, g') = np_random_normal (nat (n_samples sample_rate ms)) g
         in (Inr (quantize (map (\<lambda>x. np_clip x (-1) 1)
                    (wood_wave sample_rate hz ms amp fade_out_ms warmth normal))), g')))"

definition plastic_wave :: "real \<Rightarrow> real \<Rightarrow> real \<Rightarrow> real \<Rightarrow> real \<Rightarrow> real \<Rightarrow> real list" where
  "plastic_wave sample_rate hz ms amp fade_out_ms hardness =
     (let t = time_axis sample_rate ms;
          wave_data = map (\<lambda>t.
              amp * 0.78 * sin (2 * pi * hz * t)
            + amp * 0.09 * hardness * 0.3 * sin (2 * pi * hz * 2 * t)
            + amp * 0.05 * hardness * 0.2 * sin (2 * pi * hz * 4 * t)
            + amp * 0.0008 * sin (2 * pi * hz * 6 * t)) t;
          wave_data = smoothing sample_rate ms 15 12 wave_data;
          wave_data = linear_attack sample_rate ms 0.001 wave_data
      in linear_fade_out sample_rate ms fade_out_ms wave_data)"

definition create_plastic_waveform ::
  "real \<Rightarrow> real \<Rightarrow> real \<Rightarrow> real \<Rightarrow> real \<Rightarrow> real \<Rightarrow> error + sound" where
  "create_plastic_waveform sample_rate hz ms amp fade_out_ms hardness =
     checked sample_rate ms
       (quantize (plastic_wave sample_rate hz ms amp fade_out_ms hardness))"

definition fabric_wave ::
  "real \<Rightarrow> real \<Rightarrow> real \<Rightarrow> real \<Rightarrow> real \<Rightarrow> real \<Rightarrow> real list \<Rightarrow> real list \<Rightarrow> real list" where
  "fabric_wave sample_rate hz ms amp fade_out_ms softness normal1 normal2 =
     (let t = time_axis sample_rate ms;
          fabric_noise = low_pass 0.2 0.8 (map (\<lambda>z. amp * 0.4 * softness * z) normal1);
          wave_data = map2 (\<lambda>t (noise, z).
              amp * 0.4 * sin (2 * pi * hz * 0.8 * t)
            + noise
            + amp * 0.1 * sin (2 * pi * hz * 0.1 * t) * (1 + 0.2 * z)
            + amp * 0.08 * sin (2 * pi * hz * 0.05 * t) * exp (-0.5 * t))
              t (zip fabric_noise normal2);
          wave_data = linear_attack sample_rate ms 0.015 wave_data
      in linear_fade_out sample_rate ms fade_out_ms wave_data)"

definition create_fabric_waveform ::
  "real \<Rightarrow> real \<Rightarrow> real \<Rightarrow> real \<Rightarrow> real \<Rightarrow> real \<Rightarrow> rng \<Rightarrow> (error + sound) \<times> rng" where
  "create_fabric_waveform sample_rate hz ms amp fade_out_ms softness g =
     (if n_samples sample_rate ms < 0 then (Inl ValueError, g)
      else
        (let (normal1, g1) = np_random_normal (nat (n_samples sample_rate ms)) g;
             (normal2, g2) = np_random_normal (nat (n_samples sample_rate ms)) g1
         in (Inr (quantize (map (\<lambda>x. np_clip x (-1) 1)
                    (fabric_wave sample_rate hz ms amp fade_out_ms softness normal1 normal2))),
             g2)))"

definition ceramic_wave :: "real \<Rightarrow> real \<Rightarrow> real \<Rightarrow> real \<Rightarrow> real \<Rightarrow> real \<Rightarrow> real list" where
  "ceramic_wave sample_rate hz ms amp fade_out_ms brittleness =
     (let t = time_axis sample_rate ms;
          wave_data = map (\<lambda>t.
              amp * 0.7 * sin (2 * pi * hz * t)
            + amp * 0.3 * brittleness * sin (2 * pi * hz * 2 * t)
            + amp * 0.2 * brittleness * sin (2 * pi * hz * 3 * t)
            + amp * 0.1 * brittleness * sin (2 * pi * hz * 4 * t)) t;
          wave_data = linear_attack sample_rate ms 0.002 wave_data
      in linear_fade_out sample_rate ms fade_out_ms wave_data)"

definition create_ceramic_waveform ::
  "real \<Rightarrow> real \<Rightarrow> real \<Rightarrow> real \<Rightarrow> real \<Rightarrow> real \<Rightarrow> error + sound" where
  "create_ceramic_waveform sample_rate hz ms amp fade_out_ms brittleness =
     checked sample_rate ms
       (quantize (map (\<lambda>x. np_clip x (-1) 1)
          (ceramic_wave sample_rate hz ms amp fade_out_ms brittleness)))"

definition rubber_wave :: "real \<Rightarrow> real \<Rightarrow> real \<Rightarrow> real \<Rightarrow> real \<Rightarrow> real \<Rightarrow> real list" where
  "rubber_wave sample_rate hz ms amp fade_out_ms elasticity =
     (let t = time_axis sample_rate ms;
          wave_data = map (\<lambda>t.
              (amp * 0.8 * sin (2 * pi * hz * 0.8 * t)
               + amp * 0.2 * elasticity * sin (2 * pi * hz * 1.6 * t))
              * (1 + 0.2 * sin (2 * pi * hz * 0.1 * t))) t;
          wave_data = linear_attack sample_rate ms 0.005 wave_data;
          decay_envelope = map (\<lambda>t. exp (-2 * t / (ms / 1000.0))) t;
          wave_data = map2 (*) wave_data decay_envelope
      in linear_fade_out sample_rate ms fade_out_ms wave_data)"

definition create_rubber_waveform ::
  "real \<Rightarrow> real \<Rightarrow> real \<Rightarrow> real \<Rightarrow> real \<Rightarrow> real \<Rightarrow> error + sound" where
  "create_rubber_waveform sample_rate hz ms amp fade_out_ms elasticity =
     checked sample_rate ms
       (quantize (map (\<lambda>x. np_clip x (-1) 1)
          (rubber_wave sample_rate hz ms amp fade_out_ms elasticity)))"

subsection \<open>Dispatch on the material type\<close>

text \<open>
  The extra parameters of a material arrive as keyword arguments. A generator accepts
  one keyword, with a default; any other keyword makes the call raise
  \<^verbatim>\<open>TypeError\<close>.
\<close>

type_synonym kwargs = "(string \<times> real) list"

definition kwarg :: "string \<Rightarrow> real \<Rightarrow> kwargs \<Rightarrow> error + real" where
  "kwarg name dflt kw =
     (if list_all (\<lambda>(k, v). k = name) kw
      then Inr (case map_of kw name of None \<Rightarrow> dflt | Some v \<Rightarrow> v)
      else Inl TypeError)"

definition create_material_sound ::
  "real \<Rightarrow> string \<Rightarrow> real \<Rightarrow> real \<Rightarrow> real \<Rightarrow> real \<Rightarrow> kwargs \<Rightarrow> rng \<Rightarrow> (error + sound) \<times> rng" where
  "create_material_sound sample_rate material_type hz ms amp fade_out_ms kw g =
     (if material_type = ''glass'' then
        (case kwarg ''brightness'' 2.0 kw of Inl e \<Rightarrow> (Inl e, g)
         | Inr brightness \<Rightarrow>
             (sound_of_buffer
                (create_glass_waveform sample_rate hz ms amp fade_out_ms brightness), g))
      else if material_type = ''metal'' then
        (case kwarg ''resonance'' 1.5 kw of Inl e \<Rightarrow> (Inl e, g)
         | Inr resonance \<Rightarrow>
             (sound_of_buffer
                (create_metal_waveform sample_rate hz ms amp fade_out_ms resonance), g))
      else if material_type = ''wood'' then
        (case kwarg ''warmth'' 1.0 kw of Inl e \<Rightarrow> (Inl e, g)
         | Inr warmth \<Rightarrow>
             (let (r, g') = create_wood_waveform sample_rate hz ms amp fade_out_ms warmth g
              in (sound_of_buffer r, g')))
      else if material_type = ''plastic'' then
        (case kwarg ''hardness'' 1.0 kw of Inl e \<Rightarrow> (Inl e, g)
         | Inr hardness \<Rightarrow>
             (sound_of_buffer
                (create_plastic_waveform sample_rate hz ms amp fade_out_ms hardness), g))
      else if material_type = ''fabric'' then
        (case kwarg ''softness'' 1.0 kw of Inl e \<Rightarrow> (Inl e, g)
         | Inr softness \<Rightarrow>
             (let (r, g') = create_fabric_waveform sample_rate hz ms amp fade_out_ms softness g
              in (sound_of_buffer r, g')))
      else if material_type = ''ceramic'' then
        (case kwarg ''brittleness'' 1.5 kw of Inl e \<Rightarrow> (Inl e, g)
         | Inr brittleness \<Rightarrow>
             (sound_of_buffer
                (create_ceramic_waveform sample_rate hz ms amp fade_out_ms brittleness), g))
      else if material_type = ''rubber'' then
        (case kwarg ''elasticity'' 1.0 kw of Inl e \<Rightarrow> (Inl e, g)
         | Inr elasticity \<Rightarrow>
             (sound_of_buffer
                (create_rubber_waveform sample_rate hz ms amp fade_out_ms elasticity), g))
      else (sound_of_buffer (create_sound_buffer sample_rate hz ms amp fade_out_ms), g))"

subsection \<open>The pressure background tone and the click tone\<close>

text \<open>
  The fade-out of these two generators multiplies the tail by an exponential curve:
  \<^verbatim>\<open>actual_fade_samples = min(fade_out_samples, n_s)\<close>,
  \<^verbatim>\<open>wave_data[n_s - actual_fade_samples:] *= np.exp(-rate * np.linspace(0, 1, actual_fade_samples))\<close>.
\<close>

definition exp_fade_out :: "real \<Rightarrow> real \<Rightarrow> real \<Rightarrow> real \<Rightarrow> real list \<Rightarrow> real list" where
  "exp_fade_out sample_rate ms fade_out_ms rate wave_data =
     (let fade_out_samples = py_int (sample_rate * (fade_out_ms / 1000.0))
      in if n_samples sample_rate ms > fade_out_samples \<and> fade_out_ms > 0
         then
           (let actual_fade_samples = min fade_out_samples (n_samples sample_rate ms)
            in mul_tail wave_data
                 (map (\<lambda>x. exp (- rate * x)) (np_linspace 0 1 (nat actual_fade_samples) True)))
         else wave_data)"

definition sa_background_wave :: "real \<Rightarrow> real \<Rightarrow> real \<Rightarrow> real \<Rightarrow> real \<Rightarrow> real list" where
  "sa_background_wave sample_rate hz ms amp fade_out_ms =
     (let t = time_axis sample_rate ms;
          base_hz = max (min (hz * 1.5) 120) 80;
          wave_data = map (\<lambda>t.
              (amp * 0.7 * sin (2 * pi * base_hz * t)
               + amp * 0.2 * sin (2 * pi * base_hz * 0.8 * t)
               + amp * 0.1 * sin (2 * pi * base_hz * 2 * t))
              * (1 + 0.03 * sin (2 * pi * base_hz * 0.05 * t))) t;
          wave_data =
            (if n_samples sample_rate ms > 20
             then np_convolve_same
                    (np_convolve_same
                       (np_convolve_same wave_data (smooth_kernel 8)) (smooth_kernel 6))
                    (smooth_kernel 4)
             else wave_data);
          wave_data = linear_attack sample_rate ms 0.01 wave_data;
          wave_data = exp_fade_out sample_rate ms fade_out_ms 1.2 wave_data
      in map (\<lambda>x. tanh (x * 0.9) * 0.95) wave_data)"

definition create_sa_background_sound ::
  "real \<Rightarrow> real \<Rightarrow> real \<Rightarrow> real \<Rightarrow> real \<Rightarrow> error + sound" where
  "create_sa_background_sound sample_rate hz ms amp fade_out_ms =
     sound_of_buffer
       (checked sample_rate ms
          (quantize (sa_background_wave sample_rate hz ms amp fade_out_ms)))"

definition ra_click_wave :: "real \<Rightarrow> real \<Rightarrow> real \<Rightarrow> real \<Rightarrow> real \<Rightarrow> real list" where
  "ra_click_wave sample_rate hz ms amp fade_out_ms =
     (let n_s = n_samples sample_rate ms;
          t = time_axis sample_rate ms;
          click_hz = min (max (hz * 0.3) 18) 25;
          wave_data = map (\<lambda>t.
              (amp * 0.6 * sin (2 * pi * click_hz * t)
               + amp * 0.1 * sin (2 * pi * click_hz * 0.5 * t))
              * exp (-8 * t / (ms / 1000.0))) t;
          wave_data =
            (if n_s > 10
             then (let kernel_size = min 8 (n_s div 3)
                   in if kernel_size > 2
                      then np_convolve_same wave_data (smooth_kernel (nat kernel_size))
                      else wave_data)
             else wave_data);
          attack_samples = py_int (0.0001 * sample_rate);
          wave_data =
            (if attack_samples > 0 \<and> attack_samples < n_s
             then mul_head wave_data (map sqrt (np_linspace 0 1 (nat attack_samples) True))
             else wave_data);
          wave_data = exp_fade_out sample_rate ms fade_out_ms 3 wave_data
      in map (\<lambda>x. tanh (x * 0.9) * 0.8) wave_data)"

definition create_ra_click_sound ::
  "real \<Rightarrow> real \<Rightarrow> real \<Rightarrow> real \<Rightarrow> real \<Rightarrow> error + sound" where
  "create_ra_click_sound sample_rate hz ms amp fade_out_ms =
     sound_of_buffer
       (checked sample_rate ms (quantize (ra_click_wave sample_rate hz ms amp fade_out_ms)))"

section \<open>The audio player (\<^verbatim>\<open>AudioPlayer\<close>)\<close>

text \<open>
  The state the class keeps in its own attributes. The pygame mixer itself is outside the
  model: a call to it is taken to succeed once the mixer has been initialised, and
  one-shot playback (\<^verbatim>\<open>play_sound\<close>) touches the mixer only, so it leaves this
  state as it is.
\<close>

record audio_player =
  is_initialized :: bool
  continuous_channels :: "int \<rightharpoonup> sound"
  target_volumes :: "int \<rightharpoonup> real"
  current_volumes :: "int \<rightharpoonup> real"
  ap_volume_smooth_factor :: real

definition audio_player_init :: "bool \<Rightarrow> audio_player" where
  "audio_player_init mixer_ok =
     \<lparr>is_initialized = mixer_ok,
      continuous_channels = Map.empty,
      target_volumes = Map.empty,
      current_volumes = Map.empty,
      ap_volume_smooth_factor = 0.15\<rparr>"

definition start_continuous_sound :: "sound \<Rightarrow> int \<Rightarrow> real \<Rightarrow> audio_player \<Rightarrow> bool \<times> audio_player" where
  "start_continuous_sound sound_object channel_id initial_volume p =
     (if \<not> is_initialized p then (False, p)
      else (True,
            p\<lparr>continuous_channels := (continuous_channels p)(channel_id \<mapsto> sound_object),
              current_volumes := (current_volumes p)(channel_id \<mapsto> initial_volume),
              target_volumes := (target_volumes p)(channel_id \<mapsto> initial_volume)\<rparr>))"

definition set_continuous_volume :: "int \<Rightarrow> real \<Rightarrow> audio_player \<Rightarrow> audio_player" where
  "set_continuous_volume channel_id target_volume p =
     (if channel_id \<in> dom (continuous_channels p)
      then p\<lparr>target_volumes := (target_volumes p)(channel_id \<mapsto> np_clip target_volume 0.0 1.0)\<rparr>
      else p)"

definition update_volumes :: "audio_player \<Rightarrow> audio_player" where
  "update_volumes p =
     p\<lparr>current_volumes := (\<lambda>channel_id.
          if channel_id \<in> dom (continuous_channels p)
          then (case (target_volumes p channel_id, current_volumes p channel_id) of
                  (Some target_vol, Some current_vol) \<Rightarrow>
                    (let new_vol = current_vol
                                   + (target_vol - current_vol) * ap_volume_smooth_factor p
                     in Some (if \<bar>new_vol - target_vol\<bar> < 0.001 then target_vol else new_vol))
                | _ \<Rightarrow> current_volumes p channel_id)
          else current_volumes p channel_id)\<rparr>"

definition stop_continuous_sound :: "int \<Rightarrow> audio_player \<Rightarrow> audio_player" where
  "stop_continuous_sound channel_id p =
     (if channel_id \<in> dom (continuous_channels p)
      then p\<lparr>continuous_channels := (continuous_channels p)(channel_id := None),
             current_volumes := (current_volumes p)(channel_id := None),
             target_volumes := (target_volumes p)(channel_id := None)\<rparr>
      else p)"

definition is_continuous_playing :: "int \<Rightarrow> audio_player \<Rightarrow> bool" where
  "is_continuous_playing channel_id p \<longleftrightarrow> channel_id \<in> dom (continuous_channels p)"

section \<open>The coordinator (\<^verbatim>\<open>HapticSystem\<close>)\<close>

text \<open>
  The configuration dictionary, as far as the coordinator reads it. A material carries
  its roughness \<open>r\<close>, its frequency factor \<open>f\<close>, an optional waveform \<open>type\<close>, and the
  remaining entries, which are handed to the generator as keyword arguments.
\<close>

record material =
  mat_r :: real
  mat_f :: real
  mat_type :: "string option"
  mat_params :: kwargs

record sound_config =
  sa_hz :: real
  sa_ms :: real
  sa_amp :: real
  ra_motion_base_hz :: real
  ra_motion_ms :: real
  ra_motion_base_amp :: real
  ra_motion_min_vol_scl :: real
  ra_motion_max_vol_scl :: real
  ra_click_hz :: real
  ra_click_ms :: real
  ra_click_amp :: real

record config =
  cfg_sound :: sound_config
  cfg_materials :: "(string \<times> material) list"

text \<open>
  The spike encoder (\<^verbatim>\<open>neuron/spike_encoder.py\<close>) is not among the sources. What it
  returns in a tick is an input of the model, and so is the clock reading.
\<close>

record haptic_system =
  config :: config
  audio_player :: audio_player
  renderer_sample_rate :: real
  material_keys :: "string list"
  current_material_key :: string
  current_roughness :: real
  sound_cache :: "string \<rightharpoonup> sound"
  sa_sound :: sound
  ra_motion_sound :: sound
  ra_click_sound :: sound
  ra_motion_loop_sound :: sound
  spike_window_duration_sec :: real
  ra_motion_spike_timestamps :: "(real \<times> bool) list"
  current_spike_rate :: real
  target_volume :: real
  current_volume :: real
  volume_smooth_factor :: real
  volume_fast_decay_factor :: real
  spike_rate_update_interval :: int
  spike_rate_update_counter :: int
  mouse_pressed :: bool
  last_logged_volume :: "real option"

subsection \<open>The sound bank\<close>

text \<open>How an f-string writes an integer.\<close>

fun string_of_nat :: "nat \<Rightarrow> string" where
  "string_of_nat n =
     (if n < 10 then [char_of (48 + n)]
      else string_of_nat (n div 10) @ [char_of (48 + n mod 10)])"

definition string_of_int :: "int \<Rightarrow> string" where
  "string_of_int i =
     (if i < 0 then CHR ''-'' # string_of_nat (nat (- i)) else string_of_nat (nat i))"

text \<open>\<^verbatim>\<open>f"{role}_{mat_key}_{hz}"\<close>.\<close>

definition cache_key :: "string \<Rightarrow> string \<Rightarrow> int \<Rightarrow> string" where
  "cache_key role mat_key hz = role @ ''_'' @ mat_key @ ''_'' @ string_of_int hz"

text \<open>
  The branch \<^verbatim>\<open>if 'type' in mat_props: ... create_material_sound(...) else: ...
  create_sound_object(...)\<close>, which \<^verbatim>\<open>_create_material_sounds\<close> takes twice.
\<close>

definition material_or_plain_sound ::
  "real \<Rightarrow> material \<Rightarrow> real \<Rightarrow> real \<Rightarrow> real \<Rightarrow> real \<Rightarrow> rng \<Rightarrow> (error + sound) \<times> rng" where
  "material_or_plain_sound sr mat_props hz ms amp fade_out_ms g =
     (case mat_type mat_props of
        Some ty \<Rightarrow> create_material_sound sr ty hz ms amp fade_out_ms (mat_params mat_props) g
      | None \<Rightarrow> (create_sound_object sr hz ms amp fade_out_ms, g))"

definition create_material_sounds ::
  "real \<Rightarrow> string \<Rightarrow> material \<Rightarrow> sound_config \<Rightarrow> (string \<rightharpoonup> sound) \<times> rng
     \<Rightarrow> error + (string \<rightharpoonup> sound) \<times> rng" where
  "create_material_sounds sr mat_key mat_props snd_cfg cg =
     (let (cache, g) = cg;
          ra_motion_hz = py_int (ra_motion_base_hz snd_cfg * mat_f mat_props);
          (motion, g1) = material_or_plain_sound sr mat_props (real_of_int ra_motion_hz)
                           (ra_motion_ms snd_cfg) (ra_motion_base_amp snd_cfg) 10 g
      in case motion of Inl e \<Rightarrow> Inl e
         | Inr motion_sound \<Rightarrow>
       (let cache1 = cache(cache_key ''ra_motion'' mat_key ra_motion_hz \<mapsto> motion_sound);
            ra_click_hz = py_int (ra_click_hz snd_cfg * mat_f mat_props)
        in case create_ra_click_sound sr (real_of_int ra_click_hz) (ra_click_ms snd_cfg)
                  (ra_click_amp snd_cfg) 5 of Inl e \<Rightarrow> Inl e
           | Inr click_sound \<Rightarrow>
         (let cache2 = cache1(cache_key ''ra_click'' mat_key ra_click_hz \<mapsto> click_sound);
              loop_duration_ms = 2000;
              (loop, g2) = material_or_plain_sound sr mat_props (real_of_int ra_motion_hz)
                             loop_duration_ms (ra_motion_base_amp snd_cfg) 0 g1
          in case loop of Inl e \<Rightarrow> Inl e
             | Inr loop_sound \<Rightarrow>
                 Inr (cache2(cache_key ''ra_motion_loop'' mat_key ra_motion_hz \<mapsto> loop_sound),
                      g2))))"

text \<open>The loop of \<^verbatim>\<open>_init_all_sounds\<close> over \<^verbatim>\<open>self.materials.items()\<close>.\<close>

fun create_all_material_sounds ::
  "real \<Rightarrow> sound_config \<Rightarrow> (string \<times> material) list \<Rightarrow> (string \<rightharpoonup> sound) \<times> rng
     \<Rightarrow> error + (string \<rightharpoonup> sound) \<times> rng" where
  "create_all_material_sounds sr snd_cfg [] cg = Inr cg"
| "create_all_material_sounds sr snd_cfg ((mat_key, mat_props) # ms) cg =
     (case create_material_sounds sr mat_key mat_props snd_cfg cg of
        Inl e \<Rightarrow> Inl e
      | Inr cg' \<Rightarrow> create_all_material_sounds sr snd_cfg ms cg')"

text \<open>
  \<^verbatim>\<open>_update_current_material_sounds\<close>: the three sounds of a material, looked up in
  the cache. A key that is absent raises \<^verbatim>\<open>KeyError\<close>.
\<close>

definition lookup :: "('k \<rightharpoonup> 'v) \<Rightarrow> 'k \<Rightarrow> error + 'v" where
  "lookup m k = (case m k of None \<Rightarrow> Inl KeyError | Some v \<Rightarrow> Inr v)"

definition current_material_sounds ::
  "config \<Rightarrow> string \<Rightarrow> (string \<rightharpoonup> sound) \<Rightarrow> error + sound \<times> sound \<times> sound" where
  "current_material_sounds cfg key cache =
     (case lookup (map_of (cfg_materials cfg)) key of Inl e \<Rightarrow> Inl e
      | Inr mat_props \<Rightarrow>
     (let snd_cfg = cfg_sound cfg;
          ra_motion_hz = py_int (ra_motion_base_hz snd_cfg * mat_f mat_props);
          ra_click_hz = py_int (ra_click_hz snd_cfg * mat_f mat_props)
      in case lookup cache (cache_key ''ra_motion'' key ra_motion_hz) of Inl e \<Rightarrow> Inl e
         | Inr motion \<Rightarrow>
        (case lookup cache (cache_key ''ra_click'' key ra_click_hz) of Inl e \<Rightarrow> Inl e
         | Inr click \<Rightarrow>
        (case lookup cache (cache_key ''ra_motion_loop'' key ra_motion_hz) of Inl e \<Rightarrow> Inl e
         | Inr loop \<Rightarrow> Inr (motion, click, loop)))))"

subsection \<open>Construction\<close>

text \<open>
  \<^verbatim>\<open>HapticSystem.__init__\<close>. \<open>mixer_ok\<close> says whether pygame's mixer could be
  initialised; the renderer is built with its default sample rate.
\<close>

definition haptic_system_init :: "config \<Rightarrow> bool \<Rightarrow> rng \<Rightarrow> error + haptic_system \<times> rng" where
  "haptic_system_init cfg mixer_ok g =
     (let player = audio_player_init mixer_ok;
          sr = 44100;
          keys = map fst (cfg_materials cfg)
      in case keys of [] \<Rightarrow> Inl IndexError
         | key0 # _ \<Rightarrow>
       (case lookup (map_of (cfg_materials cfg)) key0 of Inl e \<Rightarrow> Inl e
        | Inr mat0 \<Rightarrow>
       (case create_sa_background_sound sr (sa_hz (cfg_sound cfg)) (sa_ms (cfg_sound cfg))
               (sa_amp (cfg_sound cfg)) 20 of Inl e \<Rightarrow> Inl e
        | Inr sa \<Rightarrow>
       (case create_all_material_sounds sr (cfg_sound cfg) (cfg_materials cfg) (Map.empty, g)
          of Inl e \<Rightarrow> Inl e
        | Inr (cache, g') \<Rightarrow>
       (case current_material_sounds cfg key0 cache of Inl e \<Rightarrow> Inl e
        | Inr (motion, click, loop) \<Rightarrow>
            Inr (\<lparr>config = cfg,
                  audio_player = snd (start_continuous_sound loop 1 0.0 player),
                  renderer_sample_rate = sr,
                  material_keys = keys,
                  current_material_key = key0,
                  current_roughness = mat_r mat0,
                  sound_cache = cache,
                  sa_sound = sa,
                  ra_motion_sound = motion,
                  ra_click_sound = click,
                  ra_motion_loop_sound = loop,
                  spike_window_duration_sec = 0.025,
                  ra_motion_spike_timestamps = [],
                  current_spike_rate = 0.0,
                  target_volume = 0.0,
                  current_volume = 0.0,
                  volume_smooth_factor = 0.4,
                  volume_fast_decay_factor = 0.8,
                  spike_rate_update_interval = 2,
                  spike_rate_update_counter = 0,
                  mouse_pressed = False,
                  last_logged_volume = None\<rparr>, g'))))))"

subsection \<open>Material selection\<close>

definition change_material :: "int \<Rightarrow> haptic_system \<Rightarrow> error + bool \<times> haptic_system" where
  "change_material material_index s =
     (if 0 \<le> material_index \<and> material_index < int (length (material_keys s))
      then
        (let key = material_keys s ! nat material_index
         in case lookup (map_of (cfg_materials (config s))) key of Inl e \<Rightarrow> Inl e
            | Inr mat_props \<Rightarrow>
          (let player = (if is_continuous_playing 1 (audio_player s)
                         then stop_continuous_sound 1 (audio_player s)
                         else audio_player s)
           in case current_material_sounds (config s) key (sound_cache s) of Inl e \<Rightarrow> Inl e
              | Inr (motion, click, loop) \<Rightarrow>
                  Inr (True,
                       s\<lparr>current_material_key := key,
                         current_roughness := mat_r mat_props,
                         ra_motion_sound := motion,
                         ra_click_sound := click,
                         ra_motion_loop_sound := loop,
                         audio_player :=
                           snd (start_continuous_sound loop 1 (current_volume s) player)\<rparr>)))
      else Inr (False, s))"

subsection \<open>The spike-rate volume controller\<close>

text \<open>
  \<^verbatim>\<open>_calculate_spike_rate\<close>: prunes the head of the window, then returns the rate.
  The result is the rate and the pruned window.
\<close>

definition calculate_spike_rate :: "real \<Rightarrow> haptic_system \<Rightarrow> real \<times> haptic_system" where
  "calculate_spike_rate current_time s =
     (let cutoff_time = current_time - spike_window_duration_sec s;
          window = dropWhile (\<lambda>(timestamp, spike_occurred). timestamp < cutoff_time)
                     (ra_motion_spike_timestamps s);
          spike_count = length (filter (\<lambda>(timestamp, spike_occurred). spike_occurred) window);
          effective_duration =
            (case window of
               (oldest_time, _) # _ \<Rightarrow>
                 max (min (current_time - oldest_time) (spike_window_duration_sec s)) 0.005
             | [] \<Rightarrow> spike_window_duration_sec s)
      in (if effective_duration > 0 then real spike_count / effective_duration else 0.0,
          s\<lparr>ra_motion_spike_timestamps := window\<rparr>))"

text \<open>
  \<^verbatim>\<open>_update_ra_motion_volume\<close>, block by block, in the order of the source: the spike
  is recorded, the rate is refreshed every \<open>spike_rate_update_interval\<close> calls, the
  target volume is set, the current volume is smoothed towards it and snapped, the volume
  is handed to the audio player, and large changes are logged.
\<close>

definition record_spike :: "bool \<Rightarrow> real \<Rightarrow> haptic_system \<Rightarrow> haptic_system" where
  "record_spike ra_motion_fired current_time s =
     s\<lparr>ra_motion_spike_timestamps :=
         ra_motion_spike_timestamps s @ [(current_time, ra_motion_fired)]\<rparr>"

definition refresh_spike_rate :: "real \<Rightarrow> haptic_system \<Rightarrow> haptic_system" where
  "refresh_spike_rate current_time s =
     (let s1 = s\<lparr>spike_rate_update_counter := spike_rate_update_counter s + 1\<rparr>
      in if spike_rate_update_counter s1 \<ge> spike_rate_update_interval s1
         then (let (rate, s2) = calculate_spike_rate current_time s1
               in s2\<lparr>current_spike_rate := rate, spike_rate_update_counter := 0\<rparr>)
         else s1)"

definition set_target_volume :: "haptic_system \<Rightarrow> haptic_system" where
  "set_target_volume s =
     (if mouse_pressed s \<and> current_spike_rate s > 0
      then s\<lparr>target_volume :=
               spike_rate_to_volume
                 (ra_motion_min_vol_scl (cfg_sound (config s)))
                 (ra_motion_max_vol_scl (cfg_sound (config s)))
                 (current_spike_rate s)\<rparr>
      else s\<lparr>target_volume := 0.0\<rparr>)"

definition smooth_volume :: "haptic_system \<Rightarrow> haptic_system" where
  "smooth_volume s =
     (let smooth_factor = (if target_volume s > current_volume s
                           then volume_smooth_factor s
                           else volume_fast_decay_factor s);
          s1 = s\<lparr>current_volume :=
                   current_volume s + (target_volume s - current_volume s) * smooth_factor\<rparr>
      in if \<bar>current_volume s1 - target_volume s1\<bar> < 0.005
         then s1\<lparr>current_volume := target_volume s1\<rparr>
         else s1)"

definition push_volume :: "haptic_system \<Rightarrow> haptic_system" where
  "push_volume s =
     (let s1 = (if is_continuous_playing 1 (audio_player s)
                then s\<lparr>audio_player :=
                         set_continuous_volume 1 (current_volume s) (audio_player s)\<rparr>
                else s)
      in s1\<lparr>audio_player := update_volumes (audio_player s1)\<rparr>)"

definition log_volume :: "haptic_system \<Rightarrow> haptic_system" where
  "log_volume s =
     (case last_logged_volume s of
        Some logged \<Rightarrow>
          (if \<bar>current_volume s - logged\<bar> > 0.05
           then s\<lparr>last_logged_volume := Some (current_volume s)\<rparr>
           else s)
      | None \<Rightarrow> s\<lparr>last_logged_volume := Some (current_volume s)\<rparr>)"

definition update_ra_motion_volume :: "bool \<Rightarrow> real \<Rightarrow> haptic_system \<Rightarrow> haptic_system" where
  "update_ra_motion_volume ra_motion_fired current_time s =
     log_volume (push_volume (smooth_volume (set_target_volume
       (refresh_spike_rate current_time (record_spike ra_motion_fired current_time s)))))"

text \<open>
  \<^verbatim>\<open>step\<close>: the encoder delivers the three spike flags, the clock the time. The two
  one-shot sounds go to the mixer; the motion flag goes to the volume controller.
\<close>

definition step :: "bool \<Rightarrow> bool \<Rightarrow> bool \<Rightarrow> real \<Rightarrow> haptic_system \<Rightarrow> haptic_system" where
  "step sa_fired ra_motion_fired ra_click_fired current_time s =
     update_ra_motion_volume ra_motion_fired current_time s"

definition mouse_press :: "haptic_system \<Rightarrow> haptic_system" where
  "mouse_press s = s\<lparr>mouse_pressed := True\<rparr>"

definition mouse_release :: "haptic_system \<Rightarrow> haptic_system" where
  "mouse_release s =
     (let s1 = s\<lparr>mouse_pressed := False\<rparr>;
          s2 = s1\<lparr>target_volume := 0.0\<rparr>;
          s3 = s2\<lparr>current_volume := 0.0\<rparr>
      in if is_continuous_playing 1 (audio_player s3)
         then s3\<lparr>audio_player := set_continuous_volume 1 0.0 (audio_player s3)\<rparr>
         else s3)"

text \<open>The calls a driver makes, and a finite sequence of them.\<close>

datatype event = Step bool bool bool real | MousePress | MouseRelease

fun apply_event :: "haptic_system \<Rightarrow> event \<Rightarrow> haptic_system" where
  "apply_event s (Step sa_fired ra_motion_fired ra_click_fired current_time) =
     step sa_fired ra_motion_fired ra_click_fired current_time s"
| "apply_event s MousePress = mouse_press s"
| "apply_event s MouseRelease = mouse_release s"

definition run :: "event list \<Rightarrow> haptic_system \<Rightarrow> haptic_system" where
  "run evs s = foldl apply_event s evs"

subsection \<open>The shipped configuration\<close>

text \<open>
  \<^verbatim>\<open>get_haptic_config\<close> of \<^verbatim>\<open>core/config.py\<close>, as far as the coordinator reads
  it: the sound settings and the seven materials, in the order of the dictionary.
\<close>

definition get_haptic_config :: config where
  "get_haptic_config =
     \<lparr>cfg_sound =
        \<lparr>sa_hz = 60, sa_ms = 120, sa_amp = 0.3,
         ra_motion_base_hz = 30, ra_motion_ms = 100, ra_motion_base_amp = 0.8,
         ra_motion_min_vol_scl = 0.7, ra_motion_max_vol_scl = 1.0,
         ra_click_hz = 150, ra_click_ms = 70, ra_click_amp = 2.5\<rparr>,
      cfg_materials =
        [(''Glass'', \<lparr>mat_r = 0.05, mat_f = 1.6, mat_type = Some ''glass'',
                      mat_params = [(''brightness'', 3.0)]\<rparr>),
         (''Metal'', \<lparr>mat_r = 1.2, mat_f = 1.0, mat_type = Some ''metal'',
                      mat_params = [(''resonance'', 2.2)]\<rparr>),
         (''Wood'', \<lparr>mat_r = 1.8, mat_f = 0.8, mat_type = Some ''wood'',
                     mat_params = [(''warmth'', 2.5)]\<rparr>),
         (''Plastic'', \<lparr>mat_r = 0.3, mat_f = 1.1, mat_type = Some ''plastic'',
                        mat_params = [(''hardness'', 1.5)]\<rparr>),
         (''Fabric'', \<lparr>mat_r = 0.02, mat_f = 0.6, mat_type = Some ''fabric'',
                       mat_params = [(''softness'', 3.0)]\<rparr>),
         (''Ceramic'', \<lparr>mat_r = 0.6, mat_f = 1.3, mat_type = Some ''ceramic'',
                        mat_params = [(''brittleness'', 1.8)]\<rparr>),
         (''Rubber'', \<lparr>mat_r = 0.4, mat_f = 0.7, mat_type = Some ''rubber'',
                       mat_params = [(''elasticity'', 2.0)]\<rparr>)]\<rparr>"

text \<open>
  The coordinator that the constructor builds from the shipped configuration, with the
  mixer initialised and a noise generator that delivers zeros.
\<close>

definition shipped_system :: haptic_system where
  "shipped_system = fst (projr (haptic_system_init get_haptic_config True (\<lambda>k. 0)))"

definition shipped_rng :: rng where
  "shipped_rng = snd (projr (haptic_system_init get_haptic_config True (\<lambda>k. 0)))"

text \<open>The number of \<^verbatim>\<open>step\<close> calls in a sequence of calls.\<close>

fun count_steps :: "event list \<Rightarrow> nat" where
  "count_steps [] = 0"
| "count_steps (Step sa_fired ra_motion_fired ra_click_fired current_time # evs) =
     Suc (count_steps evs)"
| "count_steps (e # evs) = count_steps evs"

text \<open>A run of ticks: each entry is what the encoder and the clock deliver in one tick.\<close>

definition ticks :: "(bool \<times> bool \<times> bool \<times> real) list \<Rightarrow> event list" where
  "ticks xs = map (\<lambda>(sa_fired, ra_motion_fired, ra_click_fired, current_time).
                      Step sa_fired ra_motion_fired ra_click_fired current_time) xs"

subsection \<open>The invariant of the volume controller\<close>

text \<open>
  What every call keeps true of a state built by the constructor from the configuration
  \<open>cfg\<close>: the configuration and the tuning constants stay as constructed, and both
  volumes are in \<open>[0, 1]\<close>.
\<close>

definition volume_inv :: "config \<Rightarrow> haptic_system \<Rightarrow> bool" where
  "volume_inv cfg s \<longleftrightarrow>
     config s = cfg \<and> volume_smooth_factor s = 0.4 \<and> volume_fast_decay_factor s = 0.8
     \<and> spike_rate_update_interval s = 2 \<and> spike_window_duration_sec s = 0.025
     \<and> 0 \<le> target_volume s \<and> target_volume s \<le> 1
     \<and> 0 \<le> current_volume s \<and> current_volume s \<le> 1"

text \<open>The tuning constants, which no call changes.\<close>

definition tuning_inv :: "haptic_system \<Rightarrow> bool" where
  "tuning_inv s \<longleftrightarrow>
     volume_smooth_factor s = 0.4 \<and> volume_fast_decay_factor s = 0.8
     \<and> spike_rate_update_interval s = 2 \<and> spike_window_duration_sec s = 0.025"

section \<open>Results\<close>

subsection \<open>The rate-to-volume map\<close>

lemma interpolation_between:
  fixes mn mx r :: real
  assumes "mn \<le> mx" "20 \<le> r" "r \<le> 120"
  shows "mn \<le> mn + ((r - 20) / (120 - 20)) * (mx - mn)"
    and "mn + ((r - 20) / (120 - 20)) * (mx - mn) \<le> mx"
proof -
  define t where "t = (r - 20) / (120 - 20)"
  have t: "0 \<le> t" "t \<le> 1" using assms by (simp_all add: t_def)
  have "0 \<le> t * (mx - mn)" using t assms by simp
  then show "mn \<le> mn + ((r - 20) / (120 - 20)) * (mx - mn)" by (simp add: t_def)
  have "t * (mx - mn) \<le> 1 * (mx - mn)"
    using t assms by (intro mult_right_mono) simp_all
  then show "mn + ((r - 20) / (120 - 20)) * (mx - mn) \<le> mx" by (simp add: t_def)
qed

lemma rate_to_volume_unclipped:
  assumes "0 \<le> mn" "mn \<le> mx" "mx \<le> 1" "20 < r" "r < 120"
  shows "spike_rate_to_volume mn mx r = mn + ((r - 20) / (120 - 20)) * (mx - mn)"
proof -
  have b: "mn \<le> mn + ((r - 20) / (120 - 20)) * (mx - mn)"
          "mn + ((r - 20) / (120 - 20)) * (mx - mn) \<le> mx"
    using interpolation_between [of mn mx r] assms by simp_all
  show ?thesis using assms b
    by (simp add: spike_rate_to_volume_def np_clip_def Let_def min_def max_def)
qed

text \<open>For a positive rate the map is the interpolation line cut off at both volumes.\<close>

lemma rate_to_volume_closed_form:
  assumes "0 \<le> mn" "mn \<le> mx" "mx \<le> 1" "0 < r"
  shows "spike_rate_to_volume mn mx r
         = min (max (mn + ((r - 20) / (120 - 20)) * (mx - mn)) mn) mx"
proof -
  consider "r \<le> 20" | "20 < r" "r < 120" | "120 \<le> r" by linarith
  then show ?thesis
  proof cases
    case 1
    have "((r - 20) / (120 - 20)) * (mx - mn) \<le> 0"
      using 1 assms by (intro mult_nonpos_nonneg) simp_all
    then show ?thesis using 1 assms
      by (simp add: spike_rate_to_volume_def Let_def min_def max_def)
  next
    case 2
    have b: "mn \<le> mn + ((r - 20) / (120 - 20)) * (mx - mn)"
            "mn + ((r - 20) / (120 - 20)) * (mx - mn) \<le> mx"
      using interpolation_between [of mn mx r] assms 2 by simp_all
    show ?thesis using rate_to_volume_unclipped [OF assms(1-3) 2] b
      by (simp add: min_def max_def)
  next
    case 3
    have "1 * (mx - mn) \<le> ((r - 20) / (120 - 20)) * (mx - mn)"
      using 3 assms by (intro mult_right_mono) simp_all
    then show ?thesis using 3 assms
      by (simp add: spike_rate_to_volume_def Let_def min_def max_def)
  qed
qed

lemma rate_to_volume_continuous:
  assumes "0 \<le> mn" "mn \<le> mx" "mx \<le> 1"
  shows "continuous_on {0<..} (spike_rate_to_volume mn mx)"
proof -
  have c: "continuous_on {0<..}
             (\<lambda>r. min (max (mn + ((r - 20) / (120 - 20)) * (mx - mn)) mn) mx)"
    by (intro continuous_intros) simp_all
  have e: "spike_rate_to_volume mn mx r
           = min (max (mn + ((r - 20) / (120 - 20)) * (mx - mn)) mn) mx"
    if "r \<in> {0<..}" for r
    using rate_to_volume_closed_form [OF assms, of r] that by simp
  show ?thesis
    using continuous_on_cong [OF refl e, THEN iffD2, OF _ c] by blast
qed

lemma rate_to_volume_mono:
  assumes "0 \<le> mn" "mn \<le> mx" "mx \<le> 1"
  shows "mono (spike_rate_to_volume mn mx)"
proof (rule monoI)
  fix r s :: real
  assume rs: "r \<le> s"
  have nonneg: "0 \<le> spike_rate_to_volume mn mx x" if "0 < x" for x
    using rate_to_volume_closed_form [OF assms that] assms by (simp add: min_def max_def)
  show "spike_rate_to_volume mn mx r \<le> spike_rate_to_volume mn mx s"
  proof (cases "0 < r")
    case False
    then have "spike_rate_to_volume mn mx r = 0" by (simp add: spike_rate_to_volume_def)
    moreover have "0 \<le> spike_rate_to_volume mn mx s"
      using nonneg [of s] by (cases "0 < s") (simp_all add: spike_rate_to_volume_def)
    ultimately show ?thesis by simp
  next
    case True
    then have s: "0 < s" using rs by simp
    have "((r - 20) / (120 - 20)) * (mx - mn) \<le> ((s - 20) / (120 - 20)) * (mx - mn)"
      using rs assms by (intro mult_right_mono) simp_all
    then show ?thesis
      using rate_to_volume_closed_form [OF assms True] rate_to_volume_closed_form [OF assms s]
      by (simp add: min_def max_def)
  qed
qed

text \<open>
  C1, as stated, fails: between the two breakpoints the code returns the interpolated
  value clipped to \<open>[0, 1]\<close>. With volume scales \<open>1/2\<close> and \<open>2\<close> the interpolation at
  rate 70 is \<open>5/4\<close>, and the code returns \<open>1\<close>.
\<close>

theorem C1_counterexample:
  "spike_rate_to_volume (1/2) 2 70 = 1
   \<and> spike_rate_to_volume (1/2) 2 70 \<noteq> 1/2 + ((70 - 20) / (120 - 20)) * (2 - 1/2)"
  by (simp add: spike_rate_to_volume_def np_clip_def)

text \<open>
  C1, amended. For every rate \<open>r\<close> the map returns 0 if \<open>r \<le> 0\<close>, \<open>min_volume\<close> if
  \<open>0 < r \<le> 20\<close>, \<open>max_volume\<close> if \<open>r \<ge> 120\<close>, and otherwise the linear interpolation
  clipped to \<open>[0, 1]\<close>. When \<open>0 \<le> min_volume \<le> max_volume \<le> 1\<close> the clip changes
  nothing, the map is monotonic in the rate, and it is continuous at every positive rate
  (so in particular between the breakpoints); when moreover \<open>min_volume < max_volume\<close>,
  the value at rate 70 lies strictly between the two volumes.
\<close>

theorem C1_rate_to_volume:
  "spike_rate_to_volume mn mx r =
     (if r \<le> 0 then 0 else if r \<le> 20 then mn else if r \<ge> 120 then mx
      else np_clip (mn + ((r - 20) / (120 - 20)) * (mx - mn)) 0 1)
   \<and> (0 \<le> mn \<and> mn \<le> mx \<and> mx \<le> 1 \<longrightarrow>
        spike_rate_to_volume mn mx r =
          (if r \<le> 0 then 0 else if r \<le> 20 then mn else if r \<ge> 120 then mx
           else mn + ((r - 20) / (120 - 20)) * (mx - mn))
        \<and> mono (spike_rate_to_volume mn mx)
        \<and> continuous_on {0<..} (spike_rate_to_volume mn mx))
   \<and> (0 \<le> mn \<and> mn < mx \<and> mx \<le> 1 \<longrightarrow>
        mn < spike_rate_to_volume mn mx 70 \<and> spike_rate_to_volume mn mx 70 < mx)"
proof (intro conjI impI)
  show "spike_rate_to_volume mn mx r =
     (if r \<le> 0 then 0 else if r \<le> 20 then mn else if r \<ge> 120 then mx
      else np_clip (mn + ((r - 20) / (120 - 20)) * (mx - mn)) 0 1)"
    by (simp add: spike_rate_to_volume_def Let_def)
next
  assume h: "0 \<le> mn \<and> mn \<le> mx \<and> mx \<le> 1"
  show "spike_rate_to_volume mn mx r =
          (if r \<le> 0 then 0 else if r \<le> 20 then mn else if r \<ge> 120 then mx
           else mn + ((r - 20) / (120 - 20)) * (mx - mn))"
  proof (cases "20 < r \<and> r < 120")
    case True
    then show ?thesis using rate_to_volume_unclipped [of mn mx r] h by simp
  next
    case False
    then show ?thesis by (auto simp: spike_rate_to_volume_def Let_def)
  qed
  show "mono (spike_rate_to_volume mn mx)" using rate_to_volume_mono h by simp
  show "continuous_on {0<..} (spike_rate_to_volume mn mx)"
    using rate_to_volume_continuous h by simp
next
  assume h: "0 \<le> mn \<and> mn < mx \<and> mx \<le> 1"
  have e: "spike_rate_to_volume mn mx 70 = mn + ((70 - 20) / (120 - 20)) * (mx - mn)"
    using rate_to_volume_unclipped [of mn mx 70] h by simp
  have lt: "mn < mx" using h by simp
  show "mn < spike_rate_to_volume mn mx 70" using lt by (simp add: e)
  show "spike_rate_to_volume mn mx 70 < mx" using lt by (simp add: e field_simps)
qed

theorem C1_rate_to_volume_witness:
  "(0::real) \<le> 7/10 \<and> (7/10::real) < 1 \<and> (1::real) \<le> 1
   \<and> spike_rate_to_volume (7/10) 1 70 = 17/20
   \<and> mono (spike_rate_to_volume (7/10) 1)
   \<and> continuous_on {0<..} (spike_rate_to_volume (7/10) 1)
   \<and> 7/10 < spike_rate_to_volume (7/10) 1 70
   \<and> spike_rate_to_volume (7/10) 1 70 < 1"
  using C1_rate_to_volume [of "7/10" 1 70] by simp

subsection \<open>The volume controller\<close>


lemma record_spike_fields [simp]:
  "config (record_spike f t s) = config s"
  "mouse_pressed (record_spike f t s) = mouse_pressed s"
  "volume_smooth_factor (record_spike f t s) = volume_smooth_factor s"
  "volume_fast_decay_factor (record_spike f t s) = volume_fast_decay_factor s"
  "spike_rate_update_interval (record_spike f t s) = spike_rate_update_interval s"
  "spike_rate_update_counter (record_spike f t s) = spike_rate_update_counter s"
  "spike_window_duration_sec (record_spike f t s) = spike_window_duration_sec s"
  "target_volume (record_spike f t s) = target_volume s"
  "current_volume (record_spike f t s) = current_volume s"
  "ra_motion_spike_timestamps (record_spike f t s) = ra_motion_spike_timestamps s @ [(t, f)]"
  by (simp_all add: record_spike_def)

lemma refresh_spike_rate_fields [simp]:
  "config (refresh_spike_rate t s) = config s"
  "mouse_pressed (refresh_spike_rate t s) = mouse_pressed s"
  "volume_smooth_factor (refresh_spike_rate t s) = volume_smooth_factor s"
  "volume_fast_decay_factor (refresh_spike_rate t s) = volume_fast_decay_factor s"
  "spike_rate_update_interval (refresh_spike_rate t s) = spike_rate_update_interval s"
  "spike_window_duration_sec (refresh_spike_rate t s) = spike_window_duration_sec s"
  "target_volume (refresh_spike_rate t s) = target_volume s"
  "current_volume (refresh_spike_rate t s) = current_volume s"
  by (simp_all add: refresh_spike_rate_def calculate_spike_rate_def Let_def)

lemma refresh_spike_rate_counter:
  "spike_rate_update_counter (refresh_spike_rate t s) =
     (if spike_rate_update_counter s + 1 \<ge> spike_rate_update_interval s
      then 0 else spike_rate_update_counter s + 1)"
  by (simp add: refresh_spike_rate_def calculate_spike_rate_def Let_def)

lemma refresh_spike_rate_window:
  "ra_motion_spike_timestamps (refresh_spike_rate t s) =
     (if spike_rate_update_counter s + 1 \<ge> spike_rate_update_interval s
      then dropWhile (\<lambda>(timestamp, spike_occurred). timestamp < t - spike_window_duration_sec s)
             (ra_motion_spike_timestamps s)
      else ra_motion_spike_timestamps s)"
  by (simp add: refresh_spike_rate_def calculate_spike_rate_def Let_def)

lemma set_target_volume_fields [simp]:
  "config (set_target_volume s) = config s"
  "mouse_pressed (set_target_volume s) = mouse_pressed s"
  "volume_smooth_factor (set_target_volume s) = volume_smooth_factor s"
  "volume_fast_decay_factor (set_target_volume s) = volume_fast_decay_factor s"
  "spike_rate_update_interval (set_target_volume s) = spike_rate_update_interval s"
  "spike_rate_update_counter (set_target_volume s) = spike_rate_update_counter s"
  "spike_window_duration_sec (set_target_volume s) = spike_window_duration_sec s"
  "current_spike_rate (set_target_volume s) = current_spike_rate s"
  "current_volume (set_target_volume s) = current_volume s"
  "ra_motion_spike_timestamps (set_target_volume s) = ra_motion_spike_timestamps s"
  by (simp_all add: set_target_volume_def)

lemma set_target_volume_target:
  "target_volume (set_target_volume s) =
     (if mouse_pressed s \<and> current_spike_rate s > 0
      then spike_rate_to_volume (ra_motion_min_vol_scl (cfg_sound (config s)))
             (ra_motion_max_vol_scl (cfg_sound (config s))) (current_spike_rate s)
      else 0)"
  by (simp add: set_target_volume_def)

lemma smooth_volume_fields [simp]:
  "config (smooth_volume s) = config s"
  "mouse_pressed (smooth_volume s) = mouse_pressed s"
  "volume_smooth_factor (smooth_volume s) = volume_smooth_factor s"
  "volume_fast_decay_factor (smooth_volume s) = volume_fast_decay_factor s"
  "spike_rate_update_interval (smooth_volume s) = spike_rate_update_interval s"
  "spike_rate_update_counter (smooth_volume s) = spike_rate_update_counter s"
  "spike_window_duration_sec (smooth_volume s) = spike_window_duration_sec s"
  "current_spike_rate (smooth_volume s) = current_spike_rate s"
  "target_volume (smooth_volume s) = target_volume s"
  "ra_motion_spike_timestamps (smooth_volume s) = ra_motion_spike_timestamps s"
  by (simp_all add: smooth_volume_def Let_def)

lemma smooth_volume_current:
  "current_volume (smooth_volume s) =
     (let smooth_factor = (if target_volume s > current_volume s then volume_smooth_factor s
                           else volume_fast_decay_factor s);
          v = current_volume s + (target_volume s - current_volume s) * smooth_factor
      in if \<bar>v - target_volume s\<bar> < 0.005 then target_volume s else v)"
  by (simp add: smooth_volume_def Let_def)

lemma push_volume_fields [simp]:
  "config (push_volume s) = config s"
  "mouse_pressed (push_volume s) = mouse_pressed s"
  "volume_smooth_factor (push_volume s) = volume_smooth_factor s"
  "volume_fast_decay_factor (push_volume s) = volume_fast_decay_factor s"
  "spike_rate_update_interval (push_volume s) = spike_rate_update_interval s"
  "spike_rate_update_counter (push_volume s) = spike_rate_update_counter s"
  "spike_window_duration_sec (push_volume s) = spike_window_duration_sec s"
  "current_spike_rate (push_volume s) = current_spike_rate s"
  "target_volume (push_volume s) = target_volume s"
  "current_volume (push_volume s) = current_volume s"
  "ra_motion_spike_timestamps (push_volume s) = ra_motion_spike_timestamps s"
  by (simp_all add: push_volume_def Let_def)

lemma log_volume_fields [simp]:
  "config (log_volume s) = config s"
  "mouse_pressed (log_volume s) = mouse_pressed s"
  "volume_smooth_factor (log_volume s) = volume_smooth_factor s"
  "volume_fast_decay_factor (log_volume s) = volume_fast_decay_factor s"
  "spike_rate_update_interval (log_volume s) = spike_rate_update_interval s"
  "spike_rate_update_counter (log_volume s) = spike_rate_update_counter s"
  "spike_window_duration_sec (log_volume s) = spike_window_duration_sec s"
  "current_spike_rate (log_volume s) = current_spike_rate s"
  "target_volume (log_volume s) = target_volume s"
  "current_volume (log_volume s) = current_volume s"
  "ra_motion_spike_timestamps (log_volume s) = ra_motion_spike_timestamps s"
  by (simp_all add: log_volume_def split: option.splits)

lemma update_frame:
  "config (update_ra_motion_volume f t s) = config s"
  "mouse_pressed (update_ra_motion_volume f t s) = mouse_pressed s"
  "volume_smooth_factor (update_ra_motion_volume f t s) = volume_smooth_factor s"
  "volume_fast_decay_factor (update_ra_motion_volume f t s) = volume_fast_decay_factor s"
  "spike_rate_update_interval (update_ra_motion_volume f t s) = spike_rate_update_interval s"
  "spike_window_duration_sec (update_ra_motion_volume f t s) = spike_window_duration_sec s"
  by (simp_all add: update_ra_motion_volume_def)

lemma update_target:
  "target_volume (update_ra_motion_volume f t s) =
     (if mouse_pressed s \<and> current_spike_rate (update_ra_motion_volume f t s) > 0
      then spike_rate_to_volume (ra_motion_min_vol_scl (cfg_sound (config s)))
             (ra_motion_max_vol_scl (cfg_sound (config s)))
             (current_spike_rate (update_ra_motion_volume f t s))
      else 0)"
  by (simp add: update_ra_motion_volume_def set_target_volume_target)

lemma update_current:
  "current_volume (update_ra_motion_volume f t s) =
     (let target = target_volume (update_ra_motion_volume f t s);
          smooth_factor = (if target > current_volume s then volume_smooth_factor s
                           else volume_fast_decay_factor s);
          v = current_volume s + (target - current_volume s) * smooth_factor
      in if \<bar>v - target\<bar> < 0.005 then target else v)"
  by (simp add: update_ra_motion_volume_def smooth_volume_current Let_def)

lemma update_window:
  "ra_motion_spike_timestamps (update_ra_motion_volume f t s) =
     (if spike_rate_update_counter s + 1 \<ge> spike_rate_update_interval s
      then dropWhile (\<lambda>(timestamp, spike_occurred). timestamp < t - spike_window_duration_sec s)
             (ra_motion_spike_timestamps s @ [(t, f)])
      else ra_motion_spike_timestamps s @ [(t, f)])"
  by (simp add: update_ra_motion_volume_def refresh_spike_rate_window)

lemma update_counter:
  "spike_rate_update_counter (update_ra_motion_volume f t s) =
     (if spike_rate_update_counter s + 1 \<ge> spike_rate_update_interval s
      then 0 else spike_rate_update_counter s + 1)"
  by (simp add: update_ra_motion_volume_def refresh_spike_rate_counter)

lemma n_samples_nonneg: "0 \<le> sr \<Longrightarrow> 0 \<le> ms \<Longrightarrow> 0 \<le> n_samples sr ms"
  by (simp add: n_samples_def py_int_def)

lemma sound_of_buffer_Inr: "sound_of_buffer (Inr b) = Inr (if length b = 0 then [0] else b)"
  by (simp add: sound_of_buffer_def)

lemma checked_ok: "0 \<le> sr \<Longrightarrow> 0 \<le> ms \<Longrightarrow> checked sr ms b = Inr b"
  using n_samples_nonneg [of sr ms] by (simp add: checked_def)

lemma shipped_init_ok: "\<exists>s0 g'. haptic_system_init get_haptic_config True g = Inr (s0, g')"
  by (simp add: haptic_system_init_def get_haptic_config_def
     lookup_def create_sa_background_sound_def checked_ok sound_of_buffer_Inr
     create_material_sounds_def material_or_plain_sound_def create_material_sound_def
     kwarg_def create_glass_waveform_def create_metal_waveform_def create_wood_waveform_def
     create_plastic_waveform_def create_fabric_waveform_def create_ceramic_waveform_def
     create_rubber_waveform_def create_ra_click_sound_def np_random_normal_def
     current_material_sounds_def cache_key_def string_of_int_def py_int_def n_samples_def
     Let_def split: prod.splits)

lemma init_fields:
  assumes "haptic_system_init cfg mixer_ok g = Inr (s0, g')"
  shows "config s0 = cfg"
    and "material_keys s0 = map fst (cfg_materials cfg)"
    and "spike_window_duration_sec s0 = 0.025"
    and "ra_motion_spike_timestamps s0 = []"
    and "target_volume s0 = 0"
    and "current_volume s0 = 0"
    and "volume_smooth_factor s0 = 0.4"
    and "volume_fast_decay_factor s0 = 0.8"
    and "spike_rate_update_interval s0 = 2"
    and "spike_rate_update_counter s0 = 0"
    and "mouse_pressed s0 = False"
  using assms
  by (auto simp: haptic_system_init_def Let_def split: list.splits sum.splits prod.splits)

lemma mouse_press_fields [simp]:
  "config (mouse_press s) = config s"
  "mouse_pressed (mouse_press s) = True"
  "volume_smooth_factor (mouse_press s) = volume_smooth_factor s"
  "volume_fast_decay_factor (mouse_press s) = volume_fast_decay_factor s"
  "spike_rate_update_interval (mouse_press s) = spike_rate_update_interval s"
  "spike_rate_update_counter (mouse_press s) = spike_rate_update_counter s"
  "spike_window_duration_sec (mouse_press s) = spike_window_duration_sec s"
  "target_volume (mouse_press s) = target_volume s"
  "current_volume (mouse_press s) = current_volume s"
  "ra_motion_spike_timestamps (mouse_press s) = ra_motion_spike_timestamps s"
  by (simp_all add: mouse_press_def)

lemma mouse_release_fields [simp]:
  "config (mouse_release s) = config s"
  "mouse_pressed (mouse_release s) = False"
  "volume_smooth_factor (mouse_release s) = volume_smooth_factor s"
  "volume_fast_decay_factor (mouse_release s) = volume_fast_decay_factor s"
  "spike_rate_update_interval (mouse_release s) = spike_rate_update_interval s"
  "spike_rate_update_counter (mouse_release s) = spike_rate_update_counter s"
  "spike_window_duration_sec (mouse_release s) = spike_window_duration_sec s"
  "target_volume (mouse_release s) = 0"
  "current_volume (mouse_release s) = 0"
  "ra_motion_spike_timestamps (mouse_release s) = ra_motion_spike_timestamps s"
  by (simp_all add: mouse_release_def Let_def)

lemma rate_to_volume_range:
  assumes "0 \<le> mn" "mn \<le> 1" "0 \<le> mx" "mx \<le> 1"
  shows "0 \<le> spike_rate_to_volume mn mx r" and "spike_rate_to_volume mn mx r \<le> 1"
  using assms by (simp_all add: spike_rate_to_volume_def np_clip_def Let_def)

text \<open>One smoothing step stays between the old volume and the target.\<close>

lemma smoothing_between:
  fixes c tg k :: real
  assumes "0 \<le> c" "c \<le> 1" "0 \<le> tg" "tg \<le> 1" "0 \<le> k" "k \<le> 1"
  shows "0 \<le> c + (tg - c) * k" and "c + (tg - c) * k \<le> 1"
proof -
  have e: "c + (tg - c) * k = (1 - k) * c + k * tg" by (simp add: algebra_simps)
  have "0 \<le> (1 - k) * c" "0 \<le> k * tg" using assms by simp_all
  then show "0 \<le> c + (tg - c) * k" unfolding e by linarith
  have "(1 - k) * c \<le> 1 - k" using mult_left_mono [of c 1 "1 - k"] assms by simp
  moreover have "k * tg \<le> k" using mult_left_mono [of tg 1 k] assms by simp
  ultimately show "c + (tg - c) * k \<le> 1" unfolding e by linarith
qed

lemma update_inv:
  assumes inv: "volume_inv cfg s"
    and cfg: "0 \<le> ra_motion_min_vol_scl (cfg_sound cfg)" "ra_motion_min_vol_scl (cfg_sound cfg) \<le> 1"
             "0 \<le> ra_motion_max_vol_scl (cfg_sound cfg)" "ra_motion_max_vol_scl (cfg_sound cfg) \<le> 1"
  shows "volume_inv cfg (update_ra_motion_volume f t s)"
proof -
  let ?s' = "update_ra_motion_volume f t s"
  have c: "config s = cfg" using inv by (simp add: volume_inv_def)
  have tg: "0 \<le> target_volume ?s'" "target_volume ?s' \<le> 1"
    using rate_to_volume_range [OF cfg] by (simp_all add: update_target [of f t s] c)
  have cur: "0 \<le> current_volume s" "current_volume s \<le> 1"
    using inv by (simp_all add: volume_inv_def)
  have k: "volume_smooth_factor s = 0.4" "volume_fast_decay_factor s = 0.8"
    using inv by (simp_all add: volume_inv_def)
  have a: "0 \<le> current_volume s + (target_volume ?s' - current_volume s) * 0.4"
          "current_volume s + (target_volume ?s' - current_volume s) * 0.4 \<le> 1"
    using smoothing_between [OF cur tg, of "0.4"] by simp_all
  have d: "0 \<le> current_volume s + (target_volume ?s' - current_volume s) * 0.8"
          "current_volume s + (target_volume ?s' - current_volume s) * 0.8 \<le> 1"
    using smoothing_between [OF cur tg, of "0.8"] by simp_all
  have "0 \<le> current_volume ?s'" "current_volume ?s' \<le> 1"
    using a d tg by (simp_all add: update_current [of f t s] Let_def k)
  then show ?thesis
    using inv tg by (simp add: volume_inv_def update_frame)
qed

lemma apply_event_inv:
  assumes "volume_inv cfg s"
    and "0 \<le> ra_motion_min_vol_scl (cfg_sound cfg)" "ra_motion_min_vol_scl (cfg_sound cfg) \<le> 1"
        "0 \<le> ra_motion_max_vol_scl (cfg_sound cfg)" "ra_motion_max_vol_scl (cfg_sound cfg) \<le> 1"
  shows "volume_inv cfg (apply_event s e)"
proof (cases e)
  case (Step a f c t)
  then show ?thesis using update_inv [OF assms] by (simp add: step_def)
next
  case MousePress
  then show ?thesis using assms(1) by (simp add: volume_inv_def)
next
  case MouseRelease
  then show ?thesis using assms(1) by (simp add: volume_inv_def)
qed

lemma run_inv:
  assumes "volume_inv cfg s"
    and "0 \<le> ra_motion_min_vol_scl (cfg_sound cfg)" "ra_motion_min_vol_scl (cfg_sound cfg) \<le> 1"
        "0 \<le> ra_motion_max_vol_scl (cfg_sound cfg)" "ra_motion_max_vol_scl (cfg_sound cfg) \<le> 1"
  shows "volume_inv cfg (run evs s)"
  using assms(1)
proof (induction evs arbitrary: s)
  case Nil
  then show ?case by (simp add: run_def)
next
  case (Cons e evs)
  have "volume_inv cfg (apply_event s e)"
    using apply_event_inv [OF Cons.prems assms(2-5)] .
  from Cons.IH [OF this] show ?case by (simp add: run_def)
qed

lemma init_inv:
  assumes "haptic_system_init cfg mixer_ok g = Inr (s0, g')"
  shows "volume_inv cfg s0"
  using init_fields [OF assms] by (simp add: volume_inv_def)

text \<open>
  C2. Start from the state the constructor builds (both volumes are 0 there), with both
  configured volume scales in \<open>[0, 1]\<close>. After every finite sequence of \<^verbatim>\<open>step\<close>,
  \<^verbatim>\<open>mouse_press\<close> and \<^verbatim>\<open>mouse_release\<close> calls, whatever the encoder and the
  clock deliver, the target volume and the current volume are in \<open>[0, 1]\<close>.
\<close>

theorem C2_volumes_in_unit_interval:
  assumes "haptic_system_init cfg mixer_ok g = Inr (s0, g')"
    and "0 \<le> ra_motion_min_vol_scl (cfg_sound cfg)" "ra_motion_min_vol_scl (cfg_sound cfg) \<le> 1"
        "0 \<le> ra_motion_max_vol_scl (cfg_sound cfg)" "ra_motion_max_vol_scl (cfg_sound cfg) \<le> 1"
  shows "0 \<le> target_volume (run evs s0) \<and> target_volume (run evs s0) \<le> 1
       \<and> 0 \<le> current_volume (run evs s0) \<and> current_volume (run evs s0) \<le> 1"
  using run_inv [OF init_inv [OF assms(1)] assms(2-5), of evs] by (simp add: volume_inv_def)

theorem C2_volumes_in_unit_interval_witness:
  "\<exists>s0 g'. haptic_system_init get_haptic_config True (\<lambda>k. 0) = Inr (s0, g')
     \<and> 0 \<le> ra_motion_min_vol_scl (cfg_sound get_haptic_config)
     \<and> ra_motion_min_vol_scl (cfg_sound get_haptic_config) \<le> 1
     \<and> 0 \<le> ra_motion_max_vol_scl (cfg_sound get_haptic_config)
     \<and> ra_motion_max_vol_scl (cfg_sound get_haptic_config) \<le> 1
     \<and> 0 \<le> target_volume (run [MousePress, Step False True False 0, MouseRelease] s0)
     \<and> target_volume (run [MousePress, Step False True False 0, MouseRelease] s0) \<le> 1
     \<and> 0 \<le> current_volume (run [MousePress, Step False True False 0, MouseRelease] s0)
     \<and> current_volume (run [MousePress, Step False True False 0, MouseRelease] s0) \<le> 1"
proof -
  obtain s0 g' where i: "haptic_system_init get_haptic_config True (\<lambda>k. 0) = Inr (s0, g')"
    using shipped_init_ok by blast
  have c: "0 \<le> ra_motion_min_vol_scl (cfg_sound get_haptic_config)"
          "ra_motion_min_vol_scl (cfg_sound get_haptic_config) \<le> 1"
          "0 \<le> ra_motion_max_vol_scl (cfg_sound get_haptic_config)"
          "ra_motion_max_vol_scl (cfg_sound get_haptic_config) \<le> 1"
    by (simp_all add: get_haptic_config_def)
  show ?thesis
    using i c C2_volumes_in_unit_interval
            [OF i c, of "[MousePress, Step False True False 0, MouseRelease]"]
    by blast
qed


lemma shipped_init:
  "haptic_system_init get_haptic_config True (\<lambda>k. 0) = Inr (shipped_system, shipped_rng)"
proof -
  obtain s0 g' where "haptic_system_init get_haptic_config True (\<lambda>k. 0) = Inr (s0, g')"
    using shipped_init_ok by blast
  then show ?thesis by (simp add: shipped_system_def shipped_rng_def)
qed

lemma step_frame:
  "config (step a f c t s) = config s"
  "mouse_pressed (step a f c t s) = mouse_pressed s"
  "volume_smooth_factor (step a f c t s) = volume_smooth_factor s"
  "volume_fast_decay_factor (step a f c t s) = volume_fast_decay_factor s"
  "spike_rate_update_interval (step a f c t s) = spike_rate_update_interval s"
  "spike_window_duration_sec (step a f c t s) = spike_window_duration_sec s"
  by (simp_all add: step_def update_frame)

lemma apply_event_tuning: "tuning_inv s \<Longrightarrow> tuning_inv (apply_event s e)"
  by (cases e) (simp_all add: tuning_inv_def step_frame)

lemma run_tuning: "tuning_inv s \<Longrightarrow> tuning_inv (run evs s)"
proof (induction evs arbitrary: s)
  case Nil
  then show ?case by (simp add: run_def)
next
  case (Cons e evs)
  from Cons.IH [OF apply_event_tuning [OF Cons.prems]] show ?case by (simp add: run_def)
qed

lemma init_tuning:
  "haptic_system_init cfg mixer_ok g = Inr (s0, g') \<Longrightarrow> tuning_inv s0"
  using init_fields [of cfg mixer_ok g s0 g'] by (simp add: tuning_inv_def)



lemma run_append: "run (xs @ ys) s = run ys (run xs s)"
  by (simp add: run_def)

lemma run_snoc: "run (xs @ [e]) s = apply_event (run xs s) e"
  by (simp add: run_def)

lemma ticks_snoc:
  "ticks (xs @ [(a, f, c, t)]) = ticks xs @ [Step a f c t]"
  by (simp add: ticks_def)

lemma unpressed_tick:
  assumes "\<not> mouse_pressed s"
  shows "target_volume (step a f c t s) = 0"
  using assms by (simp add: step_def update_target)

lemma rest_tick:
  assumes "\<not> mouse_pressed s" "current_volume s = 0"
  shows "current_volume (step a f c t s) = 0"
  using assms by (simp add: step_def update_current update_target Let_def)

lemma rest_run:
  assumes "\<not> mouse_pressed s" "current_volume s = 0" "target_volume s = 0"
  shows "\<not> mouse_pressed (run (ticks xs) s) \<and> current_volume (run (ticks xs) s) = 0
       \<and> target_volume (run (ticks xs) s) = 0"
proof (induction xs rule: rev_induct)
  case Nil
  then show ?case using assms by (simp add: run_def ticks_def)
next
  case (snoc x xs)
  obtain a f c t where x: "x = (a, f, c, t)" by (cases x) auto
  show ?case
    using snoc unpressed_tick [of "run (ticks xs) s" a f c t]
      rest_tick [of "run (ticks xs) s" a f c t]
    by (simp add: x ticks_snoc run_snoc step_frame)
qed

text \<open>
  C4. A tick in a state whose press flag is false sets the target volume to 0, whatever
  the spike rate. After \<^verbatim>\<open>mouse_release\<close>, in whatever state it is called, and any
  number of ticks, the target volume and the current volume are both 0: the volume is at
  0 from the release on, so it is never farther from 0 than the volume of the same ticks
  run without the reset and with the attack factor in place of the decay factor.
\<close>

theorem C4_release_override:
  "(\<not> mouse_pressed s \<longrightarrow>
       target_volume (step sa_fired ra_motion_fired ra_click_fired now s) = 0)
   \<and> target_volume (run (ticks xs) (mouse_release s)) = 0
   \<and> current_volume (run (ticks xs) (mouse_release s)) = 0
   \<and> \<bar>current_volume (run (ticks xs) (mouse_release s))\<bar>
       \<le> \<bar>current_volume
            (run (ticks xs)
               (s\<lparr>mouse_pressed := False,
                  volume_fast_decay_factor := volume_smooth_factor s\<rparr>))\<bar>"
  using rest_run [of "mouse_release s" xs] unpressed_tick [of s]
  by simp

theorem C4_release_override_witness:
  "\<not> mouse_pressed shipped_system
   \<and> target_volume (step False True False 0 shipped_system) = 0
   \<and> target_volume
        (run (ticks [(False, True, False, 0.002)])
           (mouse_release (run [MousePress, Step False True False 0.001] shipped_system))) = 0
   \<and> current_volume
        (run (ticks [(False, True, False, 0.002)])
           (mouse_release (run [MousePress, Step False True False 0.001] shipped_system))) = 0"
  using init_fields(11) [OF shipped_init]
    C4_release_override [of shipped_system False True False 0 "[]"]
    C4_release_override [of "run [MousePress, Step False True False 0.001] shipped_system"
       False True False 0 "[(False, True, False, 0.002)]"]
  by simp

lemma step_counter:
  assumes "tuning_inv s"
    and "spike_rate_update_counter s = int (n mod 2)"
  shows "spike_rate_update_counter (step a f c t s) = int (Suc n mod 2)"
proof (cases "n mod 2 = 0")
  case True
  then have "Suc n mod 2 = 1" by presburger
  then show ?thesis using assms True
    by (simp add: step_def update_counter tuning_inv_def)
next
  case False
  then have n: "n mod 2 = 1" "Suc n mod 2 = 0" by presburger+
  show ?thesis using assms n
    by (simp add: step_def update_counter tuning_inv_def)
qed

lemma run_counter:
  assumes "tuning_inv s"
    and "spike_rate_update_counter s = int (n mod 2)"
  shows "spike_rate_update_counter (run evs s) = int ((n + count_steps evs) mod 2)"
  using assms
proof (induction evs arbitrary: s n)
  case Nil
  then show ?case by (simp add: run_def)
next
  case (Cons e evs)
  show ?case
  proof (cases e)
    case (Step a f c t)
    have "spike_rate_update_counter (run evs (step a f c t s))
          = int ((Suc n + count_steps evs) mod 2)"
      using Cons.IH [OF apply_event_tuning [OF Cons.prems(1), of e], of "Suc n"]
        step_counter [OF Cons.prems, of a f c t] Step
      by simp
    then show ?thesis using Step by (simp add: run_def)
  next
    case MousePress
    have "spike_rate_update_counter (run evs (mouse_press s)) = int ((n + count_steps evs) mod 2)"
      using Cons.IH [OF apply_event_tuning [OF Cons.prems(1), of e], of n] Cons.prems MousePress
      by simp
    then show ?thesis using MousePress by (simp add: run_def)
  next
    case MouseRelease
    have "spike_rate_update_counter (run evs (mouse_release s)) = int ((n + count_steps evs) mod 2)"
      using Cons.IH [OF apply_event_tuning [OF Cons.prems(1), of e], of n] Cons.prems MouseRelease
      by simp
    then show ?thesis using MouseRelease by (simp add: run_def)
  qed
qed

text \<open>What pruning leaves behind when the window is ordered by time.\<close>

lemma pruned_not_older:
  fixes w :: "(real \<times> bool) list"
  assumes "sorted (map fst w)" "e \<in> set (dropWhile (\<lambda>(ts, sp). ts < cutoff) w)"
  shows "cutoff \<le> fst e"
  using assms
proof (induction w)
  case Nil
  then show ?case by simp
next
  case (Cons x w)
  show ?case
  proof (cases "fst x < cutoff")
    case True
    then show ?thesis using Cons by (simp add: case_prod_beta)
  next
    case False
    then have "e \<in> set (x # w)" using Cons.prems by (simp add: case_prod_beta)
    then show ?thesis using False Cons.prems(1) by auto
  qed
qed

lemma pruned_head_not_older:
  fixes w :: "(real \<times> bool) list"
  assumes "dropWhile (\<lambda>(ts, sp). ts < cutoff) w \<noteq> []"
  shows "cutoff \<le> fst (hd (dropWhile (\<lambda>(ts, sp). ts < cutoff) w))"
  using hd_dropWhile [OF assms] by (simp add: case_prod_beta)

lemma pruned_keeps_new:
  fixes w :: "(real \<times> bool) list"
  assumes "cutoff \<le> t"
  shows "dropWhile (\<lambda>(ts, sp). ts < cutoff) (w @ [(t, f)])
         = dropWhile (\<lambda>(ts, sp). ts < cutoff) w @ [(t, f)]"
  using assms by (induction w) (auto simp: case_prod_beta)

text \<open>
  C9, amended. Every tick appends \<open>(now, motion_spike_flag)\<close> at the tail of the window.
  The head is pruned on every second tick only (the ticks on which the spike rate is
  recomputed): after such a tick the head entry is not older than \<open>now - 0.025\<close>, and
  if the window was ordered by time, no retained entry is. A tick in between leaves the
  old entries where they are.
\<close>

theorem C9_window:
  assumes "haptic_system_init cfg mixer_ok g = Inr (s0, g')"
  shows "(let s = run evs s0;
              w = ra_motion_spike_timestamps s;
              w' = ra_motion_spike_timestamps (step sa_fired ra_motion_fired ra_click_fired now s)
          in w' \<noteq> [] \<and> last w' = (now, ra_motion_fired)
             \<and> w' = (if odd (count_steps evs)
                      then dropWhile (\<lambda>(timestamp, spike_occurred). timestamp < now - 0.025)
                             (w @ [(now, ra_motion_fired)])
                      else w @ [(now, ra_motion_fired)])
             \<and> (odd (count_steps evs) \<longrightarrow> now - 0.025 \<le> fst (hd w'))
             \<and> (odd (count_steps evs) \<and> sorted (map fst w) \<longrightarrow>
                   (\<forall>e \<in> set w'. now - 0.025 \<le> fst e)))"
proof -
  let ?s = "run evs s0"
  let ?w = "ra_motion_spike_timestamps ?s"
  let ?w' = "ra_motion_spike_timestamps (step sa_fired ra_motion_fired ra_click_fired now ?s)"
  let ?P = "\<lambda>(timestamp :: real, spike_occurred :: bool). timestamp < now - 0.025"
  have t: "tuning_inv ?s" using run_tuning [OF init_tuning [OF assms]] .
  have wd: "spike_window_duration_sec ?s = 0.025" and iv: "spike_rate_update_interval ?s = 2"
    using t by (simp_all add: tuning_inv_def)
  have c: "spike_rate_update_counter ?s = int (count_steps evs mod 2)"
    using run_counter [OF init_tuning [OF assms], of 0 evs] init_fields(10) [OF assms] by simp
  have c1: "spike_rate_update_counter ?s = (if odd (count_steps evs) then 1 else 0)"
    unfolding c by (simp add: odd_iff_mod_2_eq_one)
  have w': "?w' = (if odd (count_steps evs) then dropWhile ?P (?w @ [(now, ra_motion_fired)])
                   else ?w @ [(now, ra_motion_fired)])"
    by (simp add: step_def update_window wd iv c1)
  have keep: "dropWhile ?P (?w @ [(now, ra_motion_fired)])
              = dropWhile ?P ?w @ [(now, ra_motion_fired)]"
    using pruned_keeps_new [of "now - 0.025" now ?w ra_motion_fired] by simp
  have ne: "?w' \<noteq> []" and la: "last ?w' = (now, ra_motion_fired)"
    using keep unfolding w' by simp_all
  have hd: "now - 0.025 \<le> fst (hd ?w')" if "odd (count_steps evs)"
    using pruned_head_not_older [of "now - 0.025" "?w @ [(now, ra_motion_fired)]"] ne that
    unfolding w' by simp
  have all: "\<forall>e \<in> set ?w'. now - 0.025 \<le> fst e"
    if "odd (count_steps evs)" "sorted (map fst ?w)"
  proof
    fix e assume e: "e \<in> set ?w'"
    then have "e \<in> set (dropWhile ?P ?w) \<or> e = (now, ra_motion_fired)"
      using that(1) keep unfolding w' by auto
    then show "now - 0.025 \<le> fst e"
      using pruned_not_older [OF that(2), of e "now - 0.025"] by auto
  qed
  show ?thesis
    unfolding Let_def using ne la w' hd all by blast
qed

lemma shipped_first_tick:
  "ra_motion_spike_timestamps (run [Step a f c t] shipped_system) = [(t, f)]"
  "spike_rate_update_counter (run [Step a f c t] shipped_system) = 1"
  using init_fields [OF shipped_init]
  by (simp_all add: run_def step_def update_window update_counter)

theorem C9_window_witness:
  "haptic_system_init get_haptic_config True (\<lambda>k. 0) = Inr (shipped_system, shipped_rng)
   \<and> odd (count_steps [Step False True False 0])
   \<and> sorted (map fst (ra_motion_spike_timestamps (run [Step False True False 0] shipped_system)))
   \<and> last (ra_motion_spike_timestamps
              (step False False False 0.001 (run [Step False True False 0] shipped_system)))
       = (0.001, False)
   \<and> 0.001 - 0.025
       \<le> fst (hd (ra_motion_spike_timestamps
              (step False False False 0.001 (run [Step False True False 0] shipped_system))))
   \<and> list_all (\<lambda>e. 0.001 - 0.025 \<le> fst e)
        (ra_motion_spike_timestamps
           (step False False False 0.001 (run [Step False True False 0] shipped_system)))"
proof -
  have o: "odd (count_steps [Step False True False 0])" by simp
  have so: "sorted (map fst (ra_motion_spike_timestamps
                      (run [Step False True False 0] shipped_system)))"
    by (simp add: shipped_first_tick)
  show ?thesis
    using shipped_init o so
      C9_window [OF shipped_init, of "[Step False True False 0]" False False False "0.001"]
    unfolding Let_def list_all_iff by blast
qed

text \<open>
  C9, as stated, fails: pruning is part of the rate computation, which runs every second
  tick. After ticks at 0 s, 0.02 s and 0.04 s the entry of time 0 is still in the window,
  and it is older than \<open>0.04 - 0.025\<close>.
\<close>

theorem C9_counterexample:
  "(0, False) \<in> set (ra_motion_spike_timestamps
       (run [Step False False False 0, Step False False False 0.02,
             Step False False False 0.04] shipped_system))
   \<and> (0::real) < 0.04 - 0.025"
  using init_fields [OF shipped_init]
  by (simp add: run_def step_def update_window update_counter update_frame)

text \<open>
  C10. For a material index outside \<open>[0, number of materials)\<close>, \<^verbatim>\<open>change_material\<close>
  returns \<^verbatim>\<open>False\<close> and the whole state, and with it the material key, the
  roughness, the selected sounds and the audio player's continuous playback, is as before.
\<close>

theorem C10_change_material_out_of_range:
  assumes "\<not> (0 \<le> material_index \<and> material_index < int (length (material_keys s)))"
  shows "change_material material_index s = Inr (False, s)"
  unfolding change_material_def using assms by (simp only: if_False)

theorem C10_change_material_out_of_range_witness:
  "\<not> (0 \<le> (7::int) \<and> 7 < int (length (material_keys shipped_system)))
   \<and> change_material 7 shipped_system = Inr (False, shipped_system)
   \<and> \<not> (0 \<le> (-1::int) \<and> -1 < int (length (material_keys shipped_system)))
   \<and> change_material (-1) shipped_system = Inr (False, shipped_system)"
proof -
  have k: "length (material_keys shipped_system) = 7"
    using init_fields(2) [OF shipped_init] by (simp add: get_haptic_config_def)
  have a: "\<not> (0 \<le> (7::int) \<and> 7 < int (length (material_keys shipped_system)))"
    by (simp add: k)
  have b: "\<not> (0 \<le> (-1::int) \<and> -1 < int (length (material_keys shipped_system)))"
    by simp
  show ?thesis
    using a b C10_change_material_out_of_range [OF a] C10_change_material_out_of_range [OF b]
    by blast
qed


subsection \<open>The waveform synthesizer\<close>


lemma length_np_linspace [simp]: "length (np_linspace a b n e) = n"
  by (simp add: np_linspace_def Let_def)

lemma length_mul_head [simp]: "length (mul_head w r) = length w"
  by (simp add: mul_head_def)

lemma length_mul_tail [simp]: "length (mul_tail w r) = length w"
  by (simp add: mul_tail_def)

lemma length_np_convolve_same: "length (np_convolve_same a v) = max (length a) (length v)"
  by (simp add: np_convolve_same_def Let_def)

lemma length_smooth_kernel [simp]: "length (smooth_kernel k) = k"
  by (simp add: smooth_kernel_def)

lemma length_quantize [simp]: "length (quantize w) = length w"
  by (simp add: quantize_def)

lemma length_low_pass_from [simp]: "length (low_pass_from a b p xs) = length xs"
  by (induction xs arbitrary: p) simp_all

lemma length_low_pass [simp]: "length (low_pass a b xs) = length xs"
  by (cases xs) simp_all

lemma length_time_axis [simp]: "length (time_axis sr ms) = nat (n_samples sr ms)"
  by (simp add: time_axis_def)

lemma length_linear_fade_out [simp]: "length (linear_fade_out sr ms fd w) = length w"
  by (simp add: linear_fade_out_def Let_def)

lemma length_exp_fade_out [simp]: "length (exp_fade_out sr ms fd rate w) = length w"
  by (simp add: exp_fade_out_def Let_def)

lemma length_linear_attack [simp]: "length (linear_attack sr ms secs w) = length w"
  by (simp add: linear_attack_def Let_def)

lemma length_smoothing:
  assumes "length w = nat (n_samples sr ms)" "int k \<le> threshold"
  shows "length (smoothing sr ms threshold k w) = length w"
  using assms by (auto simp: smoothing_def length_np_convolve_same)

lemma length_sine_wave [simp]: "length (sine_wave sr hz ms amp fd) = nat (n_samples sr ms)"
  by (simp add: sine_wave_def Let_def)

lemma length_glass_wave [simp]: "length (glass_wave sr hz ms amp fd p) = nat (n_samples sr ms)"
  by (simp add: glass_wave_def Let_def length_smoothing)

lemma length_metal_wave [simp]: "length (metal_wave sr hz ms amp fd p) = nat (n_samples sr ms)"
  by (simp add: metal_wave_def Let_def length_smoothing)

lemma length_plastic_wave [simp]: "length (plastic_wave sr hz ms amp fd p) = nat (n_samples sr ms)"
  by (simp add: plastic_wave_def Let_def length_smoothing)

lemma length_ceramic_wave [simp]: "length (ceramic_wave sr hz ms amp fd p) = nat (n_samples sr ms)"
  by (simp add: ceramic_wave_def Let_def)

lemma length_rubber_wave [simp]: "length (rubber_wave sr hz ms amp fd p) = nat (n_samples sr ms)"
  by (simp add: rubber_wave_def Let_def)

lemma length_wood_wave [simp]:
  "length normal = nat (n_samples sr ms) \<Longrightarrow>
   length (wood_wave sr hz ms amp fd p normal) = nat (n_samples sr ms)"
  by (simp add: wood_wave_def Let_def length_smoothing)

lemma length_fabric_wave [simp]:
  "length normal1 = nat (n_samples sr ms) \<Longrightarrow> length normal2 = nat (n_samples sr ms) \<Longrightarrow>
   length (fabric_wave sr hz ms amp fd p normal1 normal2) = nat (n_samples sr ms)"
  by (simp add: fabric_wave_def Let_def)

lemma length_sa_background_wave [simp]:
  "length (sa_background_wave sr hz ms amp fd) = nat (n_samples sr ms)"
  by (auto simp: sa_background_wave_def Let_def length_np_convolve_same)

lemma length_ra_click_wave [simp]:
  "length (ra_click_wave sr hz ms amp fd) = nat (n_samples sr ms)"
  by (auto simp: ra_click_wave_def Let_def length_np_convolve_same)

lemma n_samples_floor: "0 \<le> sr \<Longrightarrow> 0 \<le> ms \<Longrightarrow> n_samples sr ms = \<lfloor>sr * (ms / 1000)\<rfloor>"
  by (simp add: n_samples_def py_int_def)

lemma sound_of_checked:
  assumes "0 \<le> n_samples sr ms" "length b = nat (n_samples sr ms)"
  shows "\<exists>b'. sound_of_buffer (checked sr ms b) = Inr b'
            \<and> int (length b') = max 1 (n_samples sr ms)"
  using assms by (auto simp: sound_of_buffer_def checked_def)

lemma kwarg_cases: "kwarg name dflt kw = Inl TypeError \<or> (\<exists>v. kwarg name dflt kw = Inr v)"
  by (simp add: kwarg_def)

lemma fst_np_random_normal [simp]: "fst (np_random_normal n g) = map g [0..<n]"
  by (simp add: np_random_normal_def)

lemma snd_np_random_normal [simp]: "snd (np_random_normal n g) = (\<lambda>k. g (k + n))"
  by (simp add: np_random_normal_def)

lemma wood_sound_length:
  assumes "0 \<le> n_samples sr ms"
  shows "\<exists>b'. sound_of_buffer (fst (create_wood_waveform sr hz ms amp fd p g)) = Inr b'
            \<and> int (length b') = max 1 (n_samples sr ms)"
  using assms
  by (auto simp: create_wood_waveform_def sound_of_buffer_def np_random_normal_def Let_def)

lemma fabric_sound_length:
  assumes "0 \<le> n_samples sr ms"
  shows "\<exists>b'. sound_of_buffer (fst (create_fabric_waveform sr hz ms amp fd p g)) = Inr b'
            \<and> int (length b') = max 1 (n_samples sr ms)"
  using assms
  by (auto simp: create_fabric_waveform_def sound_of_buffer_def np_random_normal_def Let_def)

lemma cms_glass:
  "create_material_sound sr ''glass'' hz ms amp fd kw g =
     (case kwarg ''brightness'' 2.0 kw of Inl e \<Rightarrow> (Inl e, g)
      | Inr p \<Rightarrow> (sound_of_buffer (create_glass_waveform sr hz ms amp fd p), g))"
  by (simp add: create_material_sound_def)

lemma cms_metal:
  "create_material_sound sr ''metal'' hz ms amp fd kw g =
     (case kwarg ''resonance'' 1.5 kw of Inl e \<Rightarrow> (Inl e, g)
      | Inr p \<Rightarrow> (sound_of_buffer (create_metal_waveform sr hz ms amp fd p), g))"
  by (simp add: create_material_sound_def)

lemma cms_wood:
  "create_material_sound sr ''wood'' hz ms amp fd kw g =
     (case kwarg ''warmth'' 1.0 kw of Inl e \<Rightarrow> (Inl e, g)
      | Inr p \<Rightarrow>
          (sound_of_buffer (fst (create_wood_waveform sr hz ms amp fd p g)),
           snd (create_wood_waveform sr hz ms amp fd p g)))"
  by (simp add: create_material_sound_def case_prod_beta Let_def split: sum.splits)

lemma cms_plastic:
  "create_material_sound sr ''plastic'' hz ms amp fd kw g =
     (case kwarg ''hardness'' 1.0 kw of Inl e \<Rightarrow> (Inl e, g)
      | Inr p \<Rightarrow> (sound_of_buffer (create_plastic_waveform sr hz ms amp fd p), g))"
  by (simp add: create_material_sound_def)

lemma cms_fabric:
  "create_material_sound sr ''fabric'' hz ms amp fd kw g =
     (case kwarg ''softness'' 1.0 kw of Inl e \<Rightarrow> (Inl e, g)
      | Inr p \<Rightarrow>
          (sound_of_buffer (fst (create_fabric_waveform sr hz ms amp fd p g)),
           snd (create_fabric_waveform sr hz ms amp fd p g)))"
  by (simp add: create_material_sound_def case_prod_beta Let_def split: sum.splits)

lemma cms_ceramic:
  "create_material_sound sr ''ceramic'' hz ms amp fd kw g =
     (case kwarg ''brittleness'' 1.5 kw of Inl e \<Rightarrow> (Inl e, g)
      | Inr p \<Rightarrow> (sound_of_buffer (create_ceramic_waveform sr hz ms amp fd p), g))"
  by (simp add: create_material_sound_def)

lemma cms_rubber:
  "create_material_sound sr ''rubber'' hz ms amp fd kw g =
     (case kwarg ''elasticity'' 1.0 kw of Inl e \<Rightarrow> (Inl e, g)
      | Inr p \<Rightarrow> (sound_of_buffer (create_rubber_waveform sr hz ms amp fd p), g))"
  by (simp add: create_material_sound_def)

lemma cms_other:
  assumes "ty \<noteq> ''glass''" "ty \<noteq> ''metal''" "ty \<noteq> ''wood''" "ty \<noteq> ''plastic''"
    "ty \<noteq> ''fabric''" "ty \<noteq> ''ceramic''" "ty \<noteq> ''rubber''"
  shows "create_material_sound sr ty hz ms amp fd kw g =
           (sound_of_buffer (create_sound_buffer sr hz ms amp fd), g)"
  using assms by (simp add: create_material_sound_def)

lemma material_sound_length:
  assumes n: "0 \<le> n_samples sr ms"
  shows "fst (create_material_sound sr ty hz ms amp fd kw g) = Inl TypeError
       \<or> (\<exists>b. fst (create_material_sound sr ty hz ms amp fd kw g) = Inr b
              \<and> int (length b) = max 1 (n_samples sr ms))"
proof -
  have plain: "\<exists>b'. sound_of_buffer (checked sr ms (quantize w)) = Inr b'
                 \<and> int (length b') = max 1 (n_samples sr ms)"
    if "length w = nat (n_samples sr ms)" for w
    using sound_of_checked [OF n, of "quantize w"] that by simp
  have glass: "\<exists>b'. sound_of_buffer (create_glass_waveform sr hz ms amp fd p) = Inr b'
                 \<and> int (length b') = max 1 (n_samples sr ms)" for p
    unfolding create_glass_waveform_def by (rule plain) simp
  have metal: "\<exists>b'. sound_of_buffer (create_metal_waveform sr hz ms amp fd p) = Inr b'
                 \<and> int (length b') = max 1 (n_samples sr ms)" for p
    unfolding create_metal_waveform_def by (rule plain) simp
  have plastic: "\<exists>b'. sound_of_buffer (create_plastic_waveform sr hz ms amp fd p) = Inr b'
                 \<and> int (length b') = max 1 (n_samples sr ms)" for p
    unfolding create_plastic_waveform_def by (rule plain) simp
  have ceramic: "\<exists>b'. sound_of_buffer (create_ceramic_waveform sr hz ms amp fd p) = Inr b'
                 \<and> int (length b') = max 1 (n_samples sr ms)" for p
    unfolding create_ceramic_waveform_def by (rule plain) simp
  have rubber: "\<exists>b'. sound_of_buffer (create_rubber_waveform sr hz ms amp fd p) = Inr b'
                 \<and> int (length b') = max 1 (n_samples sr ms)" for p
    unfolding create_rubber_waveform_def by (rule plain) simp
  have sine: "\<exists>b'. sound_of_buffer (create_sound_buffer sr hz ms amp fd) = Inr b'
                 \<and> int (length b') = max 1 (n_samples sr ms)"
    unfolding create_sound_buffer_def by (rule plain) simp
  consider "ty = ''glass''" | "ty = ''metal''" | "ty = ''wood''" | "ty = ''plastic''"
    | "ty = ''fabric''" | "ty = ''ceramic''" | "ty = ''rubber''"
    | "ty \<noteq> ''glass''" "ty \<noteq> ''metal''" "ty \<noteq> ''wood''" "ty \<noteq> ''plastic''"
      "ty \<noteq> ''fabric''" "ty \<noteq> ''ceramic''" "ty \<noteq> ''rubber''"
    by blast
  then show ?thesis
  proof cases
    case 1
    show ?thesis unfolding 1 cms_glass
      using kwarg_cases [of "''brightness''" 2 kw] glass by (elim disjE exE) simp_all
  next
    case 2
    show ?thesis unfolding 2 cms_metal
      using kwarg_cases [of "''resonance''" "1.5" kw] metal by (elim disjE exE) simp_all
  next
    case 3
    show ?thesis unfolding 3 cms_wood
      using kwarg_cases [of "''warmth''" 1 kw] wood_sound_length [OF n]
      by (elim disjE exE) simp_all
  next
    case 4
    show ?thesis unfolding 4 cms_plastic
      using kwarg_cases [of "''hardness''" 1 kw] plastic by (elim disjE exE) simp_all
  next
    case 5
    show ?thesis unfolding 5 cms_fabric
      using kwarg_cases [of "''softness''" 1 kw] fabric_sound_length [OF n]
      by (elim disjE exE) simp_all
  next
    case 6
    show ?thesis unfolding 6 cms_ceramic
      using kwarg_cases [of "''brittleness''" "1.5" kw] ceramic by (elim disjE exE) simp_all
  next
    case 7
    show ?thesis unfolding 7 cms_rubber
      using kwarg_cases [of "''elasticity''" 1 kw] rubber by (elim disjE exE) simp_all
  next
    case 8
    show ?thesis unfolding cms_other [OF 8] using sine by simp
  qed
qed






lemma wood_depends_on_draws:
  assumes "\<forall>k < nat (n_samples sr ms). g1 k = g2 k"
  shows "fst (create_wood_waveform sr hz ms amp fd p g1) = fst (create_wood_waveform sr hz ms amp fd p g2)"
proof -
  have 1: "map g1 [0..<nat (n_samples sr ms)] = map g2 [0..<nat (n_samples sr ms)]"
    using assms by simp
  show ?thesis
    by (simp add: create_wood_waveform_def np_random_normal_def Let_def 1)
qed

lemma fabric_depends_on_draws:
  assumes "\<forall>k < 2 * nat (n_samples sr ms). g1 k = g2 k"
  shows "fst (create_fabric_waveform sr hz ms amp fd p g1)
         = fst (create_fabric_waveform sr hz ms amp fd p g2)"
proof -
  have 1: "map g1 [0..<nat (n_samples sr ms)] = map g2 [0..<nat (n_samples sr ms)]"
    using assms by simp
  have 2: "map (\<lambda>k. g1 (k + nat (n_samples sr ms))) [0..<nat (n_samples sr ms)]
           = map (\<lambda>k. g2 (k + nat (n_samples sr ms))) [0..<nat (n_samples sr ms)]"
    using assms by simp
  show ?thesis
    by (simp add: create_fabric_waveform_def np_random_normal_def Let_def 1 2)
qed

lemma material_sound_ignores_rng:
  assumes "ty \<noteq> ''wood''" "ty \<noteq> ''fabric''"
  shows "create_material_sound sr ty hz ms amp fd kw g1
         = (fst (create_material_sound sr ty hz ms amp fd kw g2), g1)"
proof -
  consider "ty = ''glass''" | "ty = ''metal''" | "ty = ''plastic''"
    | "ty = ''ceramic''" | "ty = ''rubber''"
    | "ty \<noteq> ''glass''" "ty \<noteq> ''metal''" "ty \<noteq> ''wood''" "ty \<noteq> ''plastic''"
      "ty \<noteq> ''fabric''" "ty \<noteq> ''ceramic''" "ty \<noteq> ''rubber''"
    using assms by blast
  then show ?thesis
  proof cases
    case 1
    show ?thesis unfolding 1 cms_glass by (simp split: sum.splits)
  next
    case 2
    show ?thesis unfolding 2 cms_metal by (simp split: sum.splits)
  next
    case 3
    show ?thesis unfolding 3 cms_plastic by (simp split: sum.splits)
  next
    case 4
    show ?thesis unfolding 4 cms_ceramic by (simp split: sum.splits)
  next
    case 5
    show ?thesis unfolding 5 cms_rubber by (simp split: sum.splits)
  next
    case 6
    show ?thesis unfolding cms_other [OF 6] by simp
  qed
qed

lemma low_pass_first: "xs \<noteq> [] \<Longrightarrow> low_pass a b xs ! 0 = xs ! 0"
  by (cases xs) simp_all

lemma short_wood_sound:
  "fst (create_material_sound 44100 ''wood'' 24 (1/10) (4/5) 10 [(''warmth'', 5/2)] g)
   = Inr (quantize (map (\<lambda>x. np_clip x (-1) 1)
            (wood_wave 44100 24 (1/10) (4/5) 10 (5/2) (map g [0..<4]))))"
    "quantize (map (\<lambda>x. np_clip x (-1) 1)
            (wood_wave 44100 24 (1/10) (4/5) 10 (5/2) (map g [0..<4]))) ! 0
       = astype_int16 (np_clip (4/5 * 0.08 * g 0) (-1) 1 * 32767)"
proof -
  have n: "n_samples 44100 (1/10) = 4" by (simp add: n_samples_def py_int_def)
  have k: "kwarg ''warmth'' 1 [(''warmth'', 5/2)] = Inr (5/2)" by (simp add: kwarg_def)
  let ?normal = "map g [0..<4]"
  have w0: "wood_wave 44100 24 (1/10) (4/5) 10 (5/2) ?normal ! 0 = 4/5 * 0.08 * g 0"
    by (simp add: wood_wave_def Let_def smoothing_def linear_attack_def linear_fade_out_def n
          py_int_def time_axis_def np_linspace_def low_pass_first)
  have l: "length (wood_wave 44100 24 (1/10) (4/5) 10 (5/2) ?normal) = 4"
    using length_wood_wave [of ?normal 44100 "1/10" 24 "4/5" 10 "5/2"] n by simp
  show "fst (create_material_sound 44100 ''wood'' 24 (1/10) (4/5) 10 [(''warmth'', 5/2)] g)
   = Inr (quantize (map (\<lambda>x. np_clip x (-1) 1)
            (wood_wave 44100 24 (1/10) (4/5) 10 (5/2) (map g [0..<4]))))"
    by (simp add: cms_wood k create_wood_waveform_def n np_random_normal_def
          sound_of_buffer_def l)
  show "quantize (map (\<lambda>x. np_clip x (-1) 1)
            (wood_wave 44100 24 (1/10) (4/5) 10 (5/2) (map g [0..<4]))) ! 0
       = astype_int16 (np_clip (4/5 * 0.08 * g 0) (-1) 1 * 32767)"
    using l by (simp add: quantize_def w0)
qed


lemma plain_sound_ignores_rng:
  assumes "mat_type m \<noteq> Some ''wood''" "mat_type m \<noteq> Some ''fabric''"
  shows "material_or_plain_sound sr m hz ms amp fd g1
         = (fst (material_or_plain_sound sr m hz ms amp fd g2), g1)"
proof (cases "mat_type m")
  case None
  then show ?thesis by (simp add: material_or_plain_sound_def)
next
  case (Some ty)
  then have "ty \<noteq> ''wood''" "ty \<noteq> ''fabric''" using assms by simp_all
  from material_sound_ignores_rng [OF this] show ?thesis
    by (simp add: material_or_plain_sound_def Some)
qed





lemma sint_astype_int16:
  assumes "- 32768 \<le> py_int x" "py_int x \<le> 32767"
  shows "sint (astype_int16 x) = py_int x"
proof -
  have "signed_take_bit 15 (py_int x) = py_int x"
    using assms by (intro signed_take_bit_int_eq_self) simp_all
  then show ?thesis by (simp add: astype_int16_def sint_sbintrunc')
qed

lemma sint_int16_range: "- 32768 \<le> sint (s :: int16) \<and> sint s \<le> 32767"
  using sint_ge [of s] sint_lt [of s] by simp

lemma py_int_scaled_range:
  assumes "- 1 \<le> x" "x \<le> 1"
  shows "- 32767 \<le> py_int (x * 32767)" "py_int (x * 32767) \<le> 32767"
proof -
  have b: "- 32767 \<le> x * 32767" "x * 32767 \<le> 32767" using assms by simp_all
  show "- 32767 \<le> py_int (x * 32767)"
  proof (cases "0 \<le> x * 32767")
    case True
    then have "0 \<le> \<lfloor>x * 32767\<rfloor>" by simp
    then show ?thesis using True by (simp add: py_int_def)
  next
    case False
    have "- 32767 \<le> real_of_int \<lceil>x * 32767\<rceil>"
      using le_of_int_ceiling [of "x * 32767"] b(1) by linarith
    then have "- 32767 \<le> \<lceil>x * 32767\<rceil>" by linarith
    then show ?thesis using False by (simp add: py_int_def)
  qed
  show "py_int (x * 32767) \<le> 32767"
  proof (cases "0 \<le> x * 32767")
    case True
    have "real_of_int \<lfloor>x * 32767\<rfloor> \<le> 32767"
      using of_int_floor_le [of "x * 32767"] b(2) by linarith
    then have "\<lfloor>x * 32767\<rfloor> \<le> 32767" by linarith
    then show ?thesis using True by (simp add: py_int_def)
  next
    case False
    then have "\<lceil>x * 32767\<rceil> \<le> 0" by (simp add: ceiling_le_zero)
    then show ?thesis using False by (simp add: py_int_def)
  qed
qed

lemma sint_quantize:
  assumes "i < length w" "- 1 \<le> w ! i" "w ! i \<le> 1"
  shows "sint (quantize w ! i) = py_int (w ! i * 32767)"
  using assms sint_astype_int16 [of "w ! i * 32767"] py_int_scaled_range [of "w ! i"]
  by (simp add: quantize_def)

lemma np_clip_unit: "- 1 \<le> np_clip x (- 1) 1 \<and> np_clip x (- 1) 1 \<le> 1"
  by (simp add: np_clip_def)

lemma tanh_scaled_unit:
  fixes c :: real
  assumes "0 \<le> c" "c \<le> 1"
  shows "- 1 \<le> tanh y * c \<and> tanh y * c \<le> 1"
proof -
  have t: "\<bar>tanh y\<bar> \<le> 1" using tanh_real_lt_1 [of y] tanh_real_gt_neg1 [of y] by simp
  have "\<bar>tanh y * c\<bar> \<le> 1 * 1"
    unfolding abs_mult using t assms by (intro mult_mono) simp_all
  then show ?thesis by (simp add: abs_le_iff)
qed

lemma linspace_down_unit:
  assumes "j < f"
  shows "0 \<le> np_linspace 1 0 f True ! j \<and> np_linspace 1 0 f True ! j \<le> 1"
proof (cases "f - 1 = 0")
  case True
  then show ?thesis using assms by (simp add: np_linspace_def Let_def)
next
  case False
  then have d: "0 < real (f - 1)" by simp
  have j: "real j \<le> real (f - 1)" using assms by simp
  have q: "0 \<le> real j / real (f - 1)" "real j / real (f - 1) \<le> 1"
    using d j by simp_all
  have "np_linspace 1 0 f True ! j = 1 - real j / real (f - 1)"
    using assms False by (simp add: np_linspace_def Let_def)
  then show ?thesis using q by simp
qed

lemma mul_tail_nth:
  assumes "i < length w" "length r \<le> length w"
  shows "mul_tail w r ! i =
           (if i < length w - length r then w ! i
            else w ! i * r ! (i - (length w - length r)))"
  using assms by (auto simp: mul_tail_def nth_append)

lemma faded_bound:
  assumes "i < length w" "\<bar>w ! i\<bar> \<le> a" "length w = nat (n_samples sr ms)"
  shows "\<bar>linear_fade_out sr ms fd w ! i\<bar> \<le> a"
proof (cases "n_samples sr ms > py_int (sr * (fd / 1000)) \<and> fd > 0")
  case False
  then show ?thesis using assms by (auto simp: linear_fade_out_def Let_def)
next
  case True
  let ?f = "nat (py_int (sr * (fd / 1000)))"
  have le: "?f \<le> length w" using True assms(3) by linarith
  have e: "linear_fade_out sr ms fd w = mul_tail w (np_linspace 1 0 ?f True)"
    using True by (simp add: linear_fade_out_def Let_def)
  show ?thesis
  proof (cases "i < length w - ?f")
    case True
    then show ?thesis using assms le unfolding e by (simp add: mul_tail_nth)
  next
    case False
    let ?j = "i - (length w - ?f)"
    have j: "?j < ?f" using False assms(1) le by linarith
    have u: "0 \<le> np_linspace 1 0 ?f True ! ?j" "np_linspace 1 0 ?f True ! ?j \<le> 1"
      using linspace_down_unit [OF j] by simp_all
    have n: "mul_tail w (np_linspace 1 0 ?f True) ! i = w ! i * np_linspace 1 0 ?f True ! ?j"
      using False assms(1) le by (simp add: mul_tail_nth)
    have "\<bar>w ! i * np_linspace 1 0 ?f True ! ?j\<bar> \<le> \<bar>w ! i\<bar> * 1"
      unfolding abs_mult using u by (intro mult_left_mono) simp_all
    then show ?thesis using assms(2) unfolding e n by simp
  qed
qed

lemma sine_wave_bound:
  assumes "i < nat (n_samples sr ms)"
  shows "\<bar>sine_wave sr hz ms amp fd ! i\<bar> \<le> \<bar>amp\<bar>"
proof -
  let ?raw = "map (\<lambda>t. amp * sin (2 * pi * hz * t)) (time_axis sr ms)"
  have l: "i < length ?raw" using assms by simp
  have "\<bar>?raw ! i\<bar> \<le> \<bar>amp\<bar> * 1"
    using assms unfolding nth_map [OF l [simplified length_map]] abs_mult
    by (intro mult_left_mono) simp_all
  then have "\<bar>?raw ! i\<bar> \<le> \<bar>amp\<bar>" by simp
  from faded_bound [OF l this] show ?thesis by (simp add: sine_wave_def Let_def)
qed

lemma sa_wave_unit:
  assumes "j < nat (n_samples sr ms)"
  shows "- 1 \<le> sa_background_wave sr hz ms amp fd ! j \<and> sa_background_wave sr hz ms amp fd ! j \<le> 1"
proof -
  have "\<exists>v. sa_background_wave sr hz ms amp fd = map (\<lambda>x. tanh (x * 0.9) * 0.95) v"
    unfolding sa_background_wave_def Let_def by (rule exI, rule refl)
  then obtain v where v: "sa_background_wave sr hz ms amp fd = map (\<lambda>x. tanh (x * 0.9) * 0.95) v"
    by blast
  have "j < length v" using assms length_sa_background_wave [of sr hz ms amp fd] unfolding v by simp
  then show ?thesis unfolding v using tanh_scaled_unit [of "0.95" "v ! j * 0.9"] by simp
qed

lemma click_wave_unit:
  assumes "j < nat (n_samples sr ms)"
  shows "- 1 \<le> ra_click_wave sr hz ms amp fd ! j \<and> ra_click_wave sr hz ms amp fd ! j \<le> 1"
proof -
  have "\<exists>v. ra_click_wave sr hz ms amp fd = map (\<lambda>x. tanh (x * 0.9) * 0.8) v"
    unfolding ra_click_wave_def Let_def by (rule exI, rule refl)
  then obtain v where v: "ra_click_wave sr hz ms amp fd = map (\<lambda>x. tanh (x * 0.9) * 0.8) v"
    by blast
  have "j < length v" using assms length_ra_click_wave [of sr hz ms amp fd] unfolding v by simp
  then show ?thesis unfolding v using tanh_scaled_unit [of "0.8" "v ! j * 0.9"] by simp
qed

lemma tone_sample: "sine_wave 44100 11000 1 (7/10) 0 ! 1 = 7/10"
proof -
  have n: "n_samples 44100 1 = 44" by (simp add: n_samples_def py_int_def)
  have a: "2 * pi * 11000 * (1 / 44000) = pi / 2" by simp
  have "sine_wave 44100 11000 1 (7/10) 0 ! 1 = 7/10 * sin (2 * pi * 11000 * (1 / 44000))"
    by (simp add: sine_wave_def Let_def linear_fade_out_def time_axis_def np_linspace_def n)
  then show ?thesis unfolding a by simp
qed

text \<open>
  C7, as stated, fails: \<^verbatim>\<open>astype(np.int16)\<close> drops the fraction, it does not round.
  The generic tone at 44100 Hz with frequency 11000 Hz, duration 1 ms, amplitude 0.7 and
  no fade-out has the sample 0.7 at index 1; the buffer holds 22936 there, and
  \<open>round (0.7 * 32767)\<close>, clamped, is 22937.
\<close>

theorem C7_counterexample:
  "create_sound_buffer 44100 11000 1 (7/10) 0
     = Inr (quantize (sine_wave 44100 11000 1 (7/10) 0))
   \<and> sine_wave 44100 11000 1 (7/10) 0 ! 1 = 7/10
   \<and> sint (quantize (sine_wave 44100 11000 1 (7/10) 0) ! 1) = 22936
   \<and> max (- 32768) (min 32767 (round (7/10 * 32767 :: real))) = 22937"
proof -
  have n: "n_samples 44100 1 = 44" by (simp add: n_samples_def py_int_def)
  have l: "length (sine_wave 44100 11000 1 (7/10) 0) = 44" by (simp add: n)
  have 1: "create_sound_buffer 44100 11000 1 (7/10) 0
     = Inr (quantize (sine_wave 44100 11000 1 (7/10) 0))"
    by (simp add: create_sound_buffer_def checked_def n)
  have p: "py_int (7/10 * 32767) = 22936" by (simp add: py_int_def)
  have r: "- 1 \<le> sine_wave 44100 11000 1 (7/10) 0 ! 1" "sine_wave 44100 11000 1 (7/10) 0 ! 1 \<le> 1"
    unfolding tone_sample by simp_all
  have i: "1 < length (sine_wave 44100 11000 1 (7/10) 0)" unfolding l by simp
  have 3: "sint (quantize (sine_wave 44100 11000 1 (7/10) 0) ! 1) = 22936"
    using sint_quantize [OF i r] unfolding tone_sample p .
  have 4: "max (- 32768) (min 32767 (round (7/10 * 32767 :: real))) = 22937"
    by (simp add: round_def)
  from 1 tone_sample 3 4 show ?thesis by simp
qed

text \<open>
  C7, amended. The last line of every generator stores \<open>sample * 32767\<close> as a 16-bit
  integer, so no output sample is outside the int16 bounds. A sample in \<open>[-1, 1]\<close> is
  stored as \<open>sample * 32767\<close> with its fraction dropped (truncated towards zero, not
  rounded). That is the case for every sample of the metal, ceramic, rubber, wood and
  fabric generators, which clip to \<open>[-1, 1]\<close> first, of the pressure and click tones,
  which end in \<open>tanh\<close>, and of the generic tone when its amplitude is in \<open>[-1, 1]\<close>.
  (The glass and plastic generators and the generic tone quantize without clipping.)
\<close>

theorem C7_quantization:
  assumes i: "i < length w" and j: "j < nat (n_samples sr ms)"
  shows "quantize w ! i = astype_int16 (w ! i * 32767)
       \<and> (- 32768 \<le> sint (quantize w ! i) \<and> sint (quantize w ! i) \<le> 32767)
       \<and> (- 1 \<le> w ! i \<and> w ! i \<le> 1 \<longrightarrow> sint (quantize w ! i) = py_int (w ! i * 32767))
       \<and> (create_sound_buffer sr hz ms amp fade_out_ms
               = Inr (quantize (sine_wave sr hz ms amp fade_out_ms))
          \<and> (\<bar>amp\<bar> \<le> 1 \<longrightarrow>
                sint (quantize (sine_wave sr hz ms amp fade_out_ms) ! j)
                = py_int (sine_wave sr hz ms amp fade_out_ms ! j * 32767)))
       \<and> create_glass_waveform sr hz ms amp fade_out_ms p
               = Inr (quantize (glass_wave sr hz ms amp fade_out_ms p))
       \<and> create_plastic_waveform sr hz ms amp fade_out_ms p
               = Inr (quantize (plastic_wave sr hz ms amp fade_out_ms p))
       \<and> (create_metal_waveform sr hz ms amp fade_out_ms p
               = Inr (quantize (map (\<lambda>x. np_clip x (- 1) 1) (metal_wave sr hz ms amp fade_out_ms p)))
             \<and> sint (quantize (map (\<lambda>x. np_clip x (- 1) 1) (metal_wave sr hz ms amp fade_out_ms p)) ! j)
               = py_int (np_clip (metal_wave sr hz ms amp fade_out_ms p ! j) (- 1) 1 * 32767))
       \<and> (create_ceramic_waveform sr hz ms amp fade_out_ms p
               = Inr (quantize (map (\<lambda>x. np_clip x (- 1) 1) (ceramic_wave sr hz ms amp fade_out_ms p)))
             \<and> sint (quantize (map (\<lambda>x. np_clip x (- 1) 1) (ceramic_wave sr hz ms amp fade_out_ms p)) ! j)
               = py_int (np_clip (ceramic_wave sr hz ms amp fade_out_ms p ! j) (- 1) 1 * 32767))
       \<and> (create_rubber_waveform sr hz ms amp fade_out_ms p
               = Inr (quantize (map (\<lambda>x. np_clip x (- 1) 1) (rubber_wave sr hz ms amp fade_out_ms p)))
             \<and> sint (quantize (map (\<lambda>x. np_clip x (- 1) 1) (rubber_wave sr hz ms amp fade_out_ms p)) ! j)
               = py_int (np_clip (rubber_wave sr hz ms amp fade_out_ms p ! j) (- 1) 1 * 32767))
       \<and> (fst (create_wood_waveform sr hz ms amp fade_out_ms p g)
               = Inr (quantize (map (\<lambda>x. np_clip x (- 1) 1)
                   (wood_wave sr hz ms amp fade_out_ms p (map g [0..<nat (n_samples sr ms)]))))
             \<and> sint (quantize (map (\<lambda>x. np_clip x (- 1) 1)
                   (wood_wave sr hz ms amp fade_out_ms p (map g [0..<nat (n_samples sr ms)]))) ! j)
               = py_int (np_clip
                   (wood_wave sr hz ms amp fade_out_ms p (map g [0..<nat (n_samples sr ms)]) ! j)
                   (- 1) 1 * 32767))
       \<and> (fst (create_fabric_waveform sr hz ms amp fade_out_ms p g)
               = Inr (quantize (map (\<lambda>x. np_clip x (- 1) 1)
                   (fabric_wave sr hz ms amp fade_out_ms p (map g [0..<nat (n_samples sr ms)])
                      (map (\<lambda>k. g (k + nat (n_samples sr ms))) [0..<nat (n_samples sr ms)]))))
             \<and> sint (quantize (map (\<lambda>x. np_clip x (- 1) 1)
                   (fabric_wave sr hz ms amp fade_out_ms p (map g [0..<nat (n_samples sr ms)])
                      (map (\<lambda>k. g (k + nat (n_samples sr ms))) [0..<nat (n_samples sr ms)]))) ! j)
               = py_int (np_clip
                   (fabric_wave sr hz ms amp fade_out_ms p (map g [0..<nat (n_samples sr ms)])
                      (map (\<lambda>k. g (k + nat (n_samples sr ms))) [0..<nat (n_samples sr ms)]) ! j)
                   (- 1) 1 * 32767))
       \<and> (create_sa_background_sound sr hz ms amp fade_out_ms
               = Inr (quantize (sa_background_wave sr hz ms amp fade_out_ms))
             \<and> sint (quantize (sa_background_wave sr hz ms amp fade_out_ms) ! j)
               = py_int (sa_background_wave sr hz ms amp fade_out_ms ! j * 32767))
       \<and> (create_ra_click_sound sr hz ms amp fade_out_ms
               = Inr (quantize (ra_click_wave sr hz ms amp fade_out_ms))
             \<and> sint (quantize (ra_click_wave sr hz ms amp fade_out_ms) ! j)
               = py_int (ra_click_wave sr hz ms amp fade_out_ms ! j * 32767))"
proof -
  have n: "0 < n_samples sr ms" "\<not> n_samples sr ms < 0" using j by simp_all
  have clipped: "sint (quantize (map (\<lambda>x. np_clip x (- 1) 1) v) ! j) = py_int (np_clip (v ! j) (- 1) 1 * 32767)"
    if "length v = nat (n_samples sr ms)" for v
    using sint_quantize [of j "map (\<lambda>x. np_clip x (- 1) 1) v"] np_clip_unit [of "v ! j"] j that by simp
  have a: "quantize w ! i = astype_int16 (w ! i * 32767)"
    using i by (simp add: quantize_def)
  have b: "- 32768 \<le> sint (quantize w ! i) \<and> sint (quantize w ! i) \<le> 32767"
    by (rule sint_int16_range)
  have c: "- 1 \<le> w ! i \<and> w ! i \<le> 1 \<longrightarrow> sint (quantize w ! i) = py_int (w ! i * 32767)"
    using sint_quantize [OF i] by simp
  have sine: "create_sound_buffer sr hz ms amp fade_out_ms
               = Inr (quantize (sine_wave sr hz ms amp fade_out_ms))
          \<and> (\<bar>amp\<bar> \<le> 1 \<longrightarrow>
                sint (quantize (sine_wave sr hz ms amp fade_out_ms) ! j)
                = py_int (sine_wave sr hz ms amp fade_out_ms ! j * 32767))"
  proof (intro conjI impI)
    show "create_sound_buffer sr hz ms amp fade_out_ms
               = Inr (quantize (sine_wave sr hz ms amp fade_out_ms))"
      using n by (simp add: create_sound_buffer_def checked_def)
    assume "\<bar>amp\<bar> \<le> 1"
    then have "\<bar>sine_wave sr hz ms amp fade_out_ms ! j\<bar> \<le> 1"
      using sine_wave_bound [OF j, of hz amp fade_out_ms] by linarith
    then show "sint (quantize (sine_wave sr hz ms amp fade_out_ms) ! j)
                = py_int (sine_wave sr hz ms amp fade_out_ms ! j * 32767)"
      using sint_quantize [of j "sine_wave sr hz ms amp fade_out_ms"] j
      by (simp add: abs_le_iff)
  qed
  have glass: "create_glass_waveform sr hz ms amp fade_out_ms p
               = Inr (quantize (glass_wave sr hz ms amp fade_out_ms p))"
    using n by (simp add: create_glass_waveform_def checked_def)
  have plastic: "create_plastic_waveform sr hz ms amp fade_out_ms p
               = Inr (quantize (plastic_wave sr hz ms amp fade_out_ms p))"
    using n by (simp add: create_plastic_waveform_def checked_def)
  have metal: "create_metal_waveform sr hz ms amp fade_out_ms p
               = Inr (quantize (map (\<lambda>x. np_clip x (- 1) 1) (metal_wave sr hz ms amp fade_out_ms p)))
             \<and> sint (quantize (map (\<lambda>x. np_clip x (- 1) 1) (metal_wave sr hz ms amp fade_out_ms p)) ! j)
               = py_int (np_clip (metal_wave sr hz ms amp fade_out_ms p ! j) (- 1) 1 * 32767)"
    using n clipped [of "metal_wave sr hz ms amp fade_out_ms p"]
    by (simp add: create_metal_waveform_def checked_def)
  have ceramic: "create_ceramic_waveform sr hz ms amp fade_out_ms p
               = Inr (quantize (map (\<lambda>x. np_clip x (- 1) 1) (ceramic_wave sr hz ms amp fade_out_ms p)))
             \<and> sint (quantize (map (\<lambda>x. np_clip x (- 1) 1) (ceramic_wave sr hz ms amp fade_out_ms p)) ! j)
               = py_int (np_clip (ceramic_wave sr hz ms amp fade_out_ms p ! j) (- 1) 1 * 32767)"
    using n clipped [of "ceramic_wave sr hz ms amp fade_out_ms p"]
    by (simp add: create_ceramic_waveform_def checked_def)
  have rubber: "create_rubber_waveform sr hz ms amp fade_out_ms p
               = Inr (quantize (map (\<lambda>x. np_clip x (- 1) 1) (rubber_wave sr hz ms amp fade_out_ms p)))
             \<and> sint (quantize (map (\<lambda>x. np_clip x (- 1) 1) (rubber_wave sr hz ms amp fade_out_ms p)) ! j)
               = py_int (np_clip (rubber_wave sr hz ms amp fade_out_ms p ! j) (- 1) 1 * 32767)"
    using n clipped [of "rubber_wave sr hz ms amp fade_out_ms p"]
    by (simp add: create_rubber_waveform_def checked_def)
  have wood: "fst (create_wood_waveform sr hz ms amp fade_out_ms p g)
               = Inr (quantize (map (\<lambda>x. np_clip x (- 1) 1)
                   (wood_wave sr hz ms amp fade_out_ms p (map g [0..<nat (n_samples sr ms)]))))
             \<and> sint (quantize (map (\<lambda>x. np_clip x (- 1) 1)
                   (wood_wave sr hz ms amp fade_out_ms p (map g [0..<nat (n_samples sr ms)]))) ! j)
               = py_int (np_clip
                   (wood_wave sr hz ms amp fade_out_ms p (map g [0..<nat (n_samples sr ms)]) ! j)
                   (- 1) 1 * 32767)"
    using n clipped [of "wood_wave sr hz ms amp fade_out_ms p (map g [0..<nat (n_samples sr ms)])"]
    by (simp add: create_wood_waveform_def np_random_normal_def)
  have fabric: "fst (create_fabric_waveform sr hz ms amp fade_out_ms p g)
               = Inr (quantize (map (\<lambda>x. np_clip x (- 1) 1)
                   (fabric_wave sr hz ms amp fade_out_ms p (map g [0..<nat (n_samples sr ms)])
                      (map (\<lambda>k. g (k + nat (n_samples sr ms))) [0..<nat (n_samples sr ms)]))))
             \<and> sint (quantize (map (\<lambda>x. np_clip x (- 1) 1)
                   (fabric_wave sr hz ms amp fade_out_ms p (map g [0..<nat (n_samples sr ms)])
                      (map (\<lambda>k. g (k + nat (n_samples sr ms))) [0..<nat (n_samples sr ms)]))) ! j)
               = py_int (np_clip
                   (fabric_wave sr hz ms amp fade_out_ms p (map g [0..<nat (n_samples sr ms)])
                      (map (\<lambda>k. g (k + nat (n_samples sr ms))) [0..<nat (n_samples sr ms)]) ! j)
                   (- 1) 1 * 32767)"
    using n clipped [of "fabric_wave sr hz ms amp fade_out_ms p (map g [0..<nat (n_samples sr ms)])
                      (map (\<lambda>k. g (k + nat (n_samples sr ms))) [0..<nat (n_samples sr ms)])"]
    by (simp add: create_fabric_waveform_def np_random_normal_def)
  have sa: "create_sa_background_sound sr hz ms amp fade_out_ms
               = Inr (quantize (sa_background_wave sr hz ms amp fade_out_ms))
             \<and> sint (quantize (sa_background_wave sr hz ms amp fade_out_ms) ! j)
               = py_int (sa_background_wave sr hz ms amp fade_out_ms ! j * 32767)"
    using n j sint_quantize [of j "sa_background_wave sr hz ms amp fade_out_ms"]
      sa_wave_unit [OF j, of hz amp fade_out_ms]
    by (simp add: create_sa_background_sound_def checked_def sound_of_buffer_def)
  have click: "create_ra_click_sound sr hz ms amp fade_out_ms
               = Inr (quantize (ra_click_wave sr hz ms amp fade_out_ms))
             \<and> sint (quantize (ra_click_wave sr hz ms amp fade_out_ms) ! j)
               = py_int (ra_click_wave sr hz ms amp fade_out_ms ! j * 32767)"
    using n j sint_quantize [of j "ra_click_wave sr hz ms amp fade_out_ms"]
      click_wave_unit [OF j, of hz amp fade_out_ms]
    by (simp add: create_ra_click_sound_def checked_def sound_of_buffer_def)
  show ?thesis
    using a b c sine glass plastic metal ceramic rubber wood fabric sa click
    by (elim conjE, intro conjI) assumption+
qed

theorem C7_quantization_witness:
  "(0::nat) < length [7/10 :: real] \<and> (1::nat) < nat (n_samples 44100 1)
   \<and> (- 1 \<le> [7/10 :: real] ! 0 \<and> [7/10 :: real] ! 0 \<le> 1) \<and> \<bar>7/10 :: real\<bar> \<le> 1
   \<and> sint (quantize [7/10] ! 0) = 22936
   \<and> sint (quantize (sine_wave 44100 11000 1 (7/10) 0) ! 1) = 22936"
proof -
  have n: "n_samples 44100 1 = 44" by (simp add: n_samples_def py_int_def)
  have i: "(0::nat) < length [7/10 :: real]" by simp
  have j: "(1::nat) < nat (n_samples 44100 1)" by (simp add: n)
  have p: "py_int (7/10 * 32767) = 22936" by (simp add: py_int_def)
  have h: "- 1 \<le> [7/10 :: real] ! 0 \<and> [7/10 :: real] ! 0 \<le> 1" by simp
  have a: "\<bar>7/10 :: real\<bar> \<le> 1" by simp
  have e: "[7/10 :: real] ! 0 = 7/10" by simp
  note t = C7_quantization [OF i j, where hz = 11000 and amp = "7/10" and fade_out_ms = 0
                              and p = 0 and g = "\<lambda>k. 0"]
  have "sint (quantize [7/10] ! 0) = py_int ([7/10 :: real] ! 0 * 32767)"
    using t h by blast
  then have c1: "sint (quantize [7/10] ! 0) = 22936" unfolding e p .
  have "sint (quantize (sine_wave 44100 11000 1 (7/10) 0) ! 1)
        = py_int (sine_wave 44100 11000 1 (7/10) 0 ! 1 * 32767)"
    using t a by blast
  then have c2: "sint (quantize (sine_wave 44100 11000 1 (7/10) 0) ! 1) = 22936"
    unfolding tone_sample p .
  from i j h a c1 c2 show ?thesis by blast
qed


subsection \<open>The neuron integrator\<close>

text \<open>
  C5 (against the integrator modelled from the specification). Whenever a step detects a
  spike, that is, the candidate potential computed in the step is at least 30, the step
  reports the spike, the potential after the step is exactly \<open>c\<close>, and the recovery
  variable after the step is the recovery value computed in the step plus \<open>d\<close>.
\<close>

theorem C5_spike_reset:
  assumes "v_candidate s i dt \<ge> 30"
  shows "fst (neuron_step p s i dt)
       \<and> ns_v (snd (neuron_step p s i dt)) = np_c p
       \<and> ns_u (snd (neuron_step p s i dt)) = u_candidate p s dt + np_d p"
  using assms by (simp add: neuron_step_def Let_def)

theorem C5_spike_reset_witness:
  "v_candidate \<lparr>ns_v = 0, ns_u = 0\<rparr> 0 1 \<ge> 30
   \<and> fst (neuron_step \<lparr>np_a = 0.05, np_b = 0.25, np_c = -65, np_d = 6\<rparr> \<lparr>ns_v = 0, ns_u = 0\<rparr> 0 1)
   \<and> ns_v (snd (neuron_step \<lparr>np_a = 0.05, np_b = 0.25, np_c = -65, np_d = 6\<rparr>
                   \<lparr>ns_v = 0, ns_u = 0\<rparr> 0 1)) = -65
   \<and> ns_u (snd (neuron_step \<lparr>np_a = 0.05, np_b = 0.25, np_c = -65, np_d = 6\<rparr>
                   \<lparr>ns_v = 0, ns_u = 0\<rparr> 0 1)) = 6"
proof -
  have h: "v_candidate \<lparr>ns_v = 0, ns_u = 0\<rparr> 0 1 \<ge> 30"
    by (simp add: v_candidate_def)
  show ?thesis
    using h C5_spike_reset [OF h, of "\<lparr>np_a = 0.05, np_b = 0.25, np_c = -65, np_d = 6\<rparr>"]
    by (simp add: u_candidate_def)
qed

end
